theory Spec2Isabelle
  imports Complex_Main "HOL-Library.AList" "HOL-Library.Sublist"
begin

section \<open>Python values and exceptions\<close>

text \<open>
  The metadata values the harmonizers inspect. A Python float is a finite double, an
  infinity or NaN; a finite double is carried by the rational number it denotes. Numpy
  arrays are met only by the equality of records and are added there.
\<close>

datatype pyfloat = Finite rat | PosInf | NegInf | NaN

datatype pyval =
    PNone
  | PBool bool
  | PInt int
  | PFloat pyfloat
  | PStr string
  | PList "pyval list"
  | PTuple "pyval list"

datatype error = ValueError | TypeError | IndexError | AttributeError | OverflowError
  | ConversionError

type_synonym metadata = "(string \<times> pyval) list"

section \<open>String operations of Python used by the filters\<close>

text \<open>\<open>str.strip()\<close> removes the whitespace characters at both ends; the whitespace
  characters below 128 are the blank, tab, newline, carriage return, vertical tab, form feed
  and the four separators \<open>0x1C\<close> to \<open>0x1F\<close>.\<close>

definition is_space :: "char \<Rightarrow> bool" where
  "is_space c = (c \<in> set [CHR 0x20, CHR 0x09, CHR 0x0A, CHR 0x0D, CHR 0x0B, CHR 0x0C,
                           CHR 0x1C, CHR 0x1D, CHR 0x1E, CHR 0x1F])"

definition strip :: "string \<Rightarrow> string" where
  "strip s = rev (dropWhile is_space (rev (dropWhile is_space s)))"

definition replace_char :: "char \<Rightarrow> string \<Rightarrow> string" where
  "replace_char c s = filter (\<lambda>x. x \<noteq> c) s"

definition endswith :: "string \<Rightarrow> string \<Rightarrow> bool" where
  "endswith s suf = suffix suf s"

text \<open>\<open>s.split(sep)\<close> for a non-empty separator: a scan from the left, cutting at every
  occurrence that does not overlap the one before.\<close>

function split_aux :: "string \<Rightarrow> string \<Rightarrow> string \<Rightarrow> string list" where
  "split_aux sep acc [] = [rev acc]"
| "split_aux sep acc (c # cs) =
     (if sep \<noteq> [] \<and> prefix sep (c # cs)
      then rev acc # split_aux sep [] (drop (length sep) (c # cs))
      else split_aux sep (c # acc) cs)"
  by pat_completeness auto
termination
  by (relation "measure (\<lambda>(sep, acc, s). length s)") auto

definition split :: "string \<Rightarrow> string \<Rightarrow> string list" where
  "split s sep = split_aux sep [] s"

text \<open>\<open>s[:-n]\<close> for a positive \<open>n\<close>.\<close>

definition drop_last :: "nat \<Rightarrow> string \<Rightarrow> string" where
  "drop_last n s = take (length s - n) s"

section \<open>clean_inchis\<close>

text \<open>
  \<open>clean_inchis\<close> reads \<open>spectrum.metadata["inchi"]\<close> (\<open>None\<close> when the key is missing,
  by \<open>Metadata.__getitem__\<close>) and assigns the repaired value to the same field. The model
  maps the value read to the value assigned, or to the exception raised. \<open>mol_converter\<close>
  is an external function and a parameter; the \<open>print\<close> after it has no effect on the value.
\<close>

definition dq :: char where
  "dq = CHR 0x22"

definition nl :: char where
  "nl = CHR 0x0A"

definition marker :: string where
  "marker = ''InChI=''"

definition empty_entry_strings :: "string list" where
  "empty_entry_strings =
     [''N/A'', ''n/a'', ''NA'', ''0'', [dq, dq], [], ''nodata'',
      dq # ''InChI=n/a'' @ [dq], dq # ''InChI='' @ [dq], ''InChI=1S/N'' @ [nl],
      [CHR 0x09, CHR 0x0D, CHR 0x0A]]"

text \<open>\<open>inchi in empty_entry_types\<close>: Python compares with \<open>==\<close>, so the entry \<open>0\<close> of the
  list is met by \<open>0\<close>, \<open>False\<close> and \<open>0.0\<close>.\<close>

fun in_empty_entry_types :: "pyval \<Rightarrow> bool" where
  "in_empty_entry_types (PStr s) = (s \<in> set empty_entry_strings)"
| "in_empty_entry_types (PInt i) = (i = 0)"
| "in_empty_entry_types (PBool b) = (\<not> b)"
| "in_empty_entry_types (PFloat f) = (f = Finite 0)"
| "in_empty_entry_types _ = False"

definition rewrap :: "string \<Rightarrow> string" where
  "rewrap body =
     (if endswith body [dq] then dq # marker @ body
      else if endswith body [nl] then dq # marker @ drop_last 2 body @ [dq]
      else if endswith body [nl, dq] then dq # marker @ drop_last 3 body @ [dq]
      else dq # marker @ body @ [dq])"

definition finish :: "pyval \<Rightarrow> error + pyval" where
  "finish w =
     (case w of
        PStr t \<Rightarrow> Inr (PStr (rewrap (last (split (strip t) marker))))
      | _ \<Rightarrow> Inl AttributeError)"

definition clean_inchis ::
  "(string \<Rightarrow> string \<Rightarrow> string \<Rightarrow> error + pyval) \<Rightarrow> bool \<Rightarrow> pyval \<Rightarrow> error + pyval" where
  "clean_inchis mol_converter rescue_smiles inchi =
     (if in_empty_entry_types inchi then Inr (PStr ''n/a'')
      else case inchi of
        PStr s \<Rightarrow>
          (let s1 = replace_char CHR '' '' s;
               seg = last (split s1 marker)
           in if seg = [] then Inl IndexError
              else if hd seg \<in> set ''CcON'' \<and> rescue_smiles
                then (case mol_converter (replace_char dq seg) ''smi'' ''inchi'' of
                        Inl e \<Rightarrow> Inl e
                      | Inr w \<Rightarrow> finish w)
                else finish (PStr s1))
      | _ \<Rightarrow> Inl AttributeError)"

section \<open>The metadata record\<close>

text \<open>
  The record's store is a Python dict, which keeps insertion order: an association list
  with \<open>AList.update\<close> for assignment (an existing key keeps its place, a new key goes
  last), \<open>AList.delete\<close> for \<open>pop(key, None)\<close> and \<open>map_of\<close> for lookup.
\<close>

definition Metadata_get :: "(string \<times> 'v) list \<Rightarrow> string \<Rightarrow> 'v \<Rightarrow> 'v" where
  "Metadata_get d key dflt = (case map_of d key of Some v \<Rightarrow> v | None \<Rightarrow> dflt)"

definition Metadata_getitem :: "metadata \<Rightarrow> string \<Rightarrow> pyval" where
  "Metadata_getitem d key = Metadata_get d key PNone"

text \<open>
  Python's \<open>str.lower()\<close> is a built-in that lower-cases every cased letter of Unicode;
  it is the parameter \<open>str_lower\<close> of the definitions that call it.
\<close>

section \<open>Precursor m/z resolution\<close>

definition default_key :: string where
  "default_key = ''precursor_mz''"

definition accepted_keys :: "string list" where
  "accepted_keys = [''precursormz'', ''precursor_mass'']"

definition accepted_missing_entries :: "string list" where
  "accepted_missing_entries = ['''', ''N/A'', ''NA'', ''n/a'']"

text \<open>
  Python's \<open>float(s)\<close> on a string and \<open>float(i)\<close> on an int are built-ins and parameters
  of the model: \<open>float_str s\<close> is \<open>None\<close> where \<open>float(s)\<close> raises ValueError, and
  \<open>float_int i\<close> is \<open>None\<close> where \<open>float(i)\<close> raises OverflowError.
  \<open>isinstance(x, int)\<close> holds for a bool as well.
\<close>

fun convert_precursor_mz :: "(string \<Rightarrow> pyfloat option) \<Rightarrow> pyval \<Rightarrow> pyval" where
  "convert_precursor_mz float_str PNone = PNone"
| "convert_precursor_mz float_str (PStr s) =
     (if s \<in> set accepted_missing_entries then PNone
      else case float_str (strip s) of Some f \<Rightarrow> PFloat f | None \<Rightarrow> PNone)"
| "convert_precursor_mz float_str (PFloat f) = PFloat f"
| "convert_precursor_mz float_str (PInt i) = PInt i"
| "convert_precursor_mz float_str (PBool b) = PBool b"
| "convert_precursor_mz float_str (PList xs) = PNone"
| "convert_precursor_mz float_str (PTuple xs) = PNone"

text \<open>Modelled from the spec: \<open>get_first_common_element\<close> of \<open>matchms.utils\<close>, which is not
  among the sources. The resolver searches the mapping for the canonical field and its
  known aliases, ordered canonical name first, then the aliases in their declared order,
  and takes the first present key; \<open>None\<close> when no key is present.\<close>

definition get_first_common_element :: "string list \<Rightarrow> string list \<Rightarrow> string option" where
  "get_first_common_element first second = find (\<lambda>k. k \<in> set first) second"

text \<open>\<open>pepmass[0]\<close>: the first item of a list or tuple, the first character of a string;
  an empty sequence raises IndexError and a value that cannot be indexed TypeError.\<close>

fun subscript0 :: "pyval \<Rightarrow> error + pyval" where
  "subscript0 (PList []) = Inl IndexError"
| "subscript0 (PList (x # xs)) = Inr x"
| "subscript0 (PTuple []) = Inl IndexError"
| "subscript0 (PTuple (x # xs)) = Inr x"
| "subscript0 (PStr []) = Inl IndexError"
| "subscript0 (PStr (c # cs)) = Inr (PStr [c])"
| "subscript0 _ = Inl TypeError"

text \<open>\<open>float(x)\<close> for an \<open>x\<close> with \<open>isinstance(x, (float, int))\<close>; \<open>None\<close> for any other
  value.\<close>

fun float_of_number :: "(int \<Rightarrow> pyfloat option) \<Rightarrow> pyval \<Rightarrow> (error + pyfloat) option" where
  "float_of_number float_int (PFloat f) = Some (Inr f)"
| "float_of_number float_int (PInt i) =
     (case float_int i of Some f \<Rightarrow> Some (Inr f) | None \<Rightarrow> Some (Inl OverflowError))"
| "float_of_number float_int (PBool b) = Some (Inr (Finite (if b then 1 else 0)))"
| "float_of_number float_int _ = None"

definition pepmass_fallback :: "(string \<Rightarrow> pyfloat option) \<Rightarrow> metadata \<Rightarrow> error + metadata" where
  "pepmass_fallback float_str d =
     (let pepmass = Metadata_get d ''pepmass'' PNone
      in if pepmass = PNone then Inr d
         else case subscript0 pepmass of
                Inl e \<Rightarrow> Inl e
              | Inr t \<Rightarrow>
                  if convert_precursor_mz float_str t \<noteq> PNone
                  then Inr (AList.update ''precursor_mz'' t d)
                  else Inr d)"

definition add_precursor_mz_metadata ::
  "(string \<Rightarrow> pyfloat option) \<Rightarrow> (int \<Rightarrow> pyfloat option) \<Rightarrow> metadata \<Rightarrow> error + metadata" where
  "add_precursor_mz_metadata float_str float_int d =
     (let precursor_mz_key = get_first_common_element (map fst d) (default_key # accepted_keys);
          precursor_mz = (case precursor_mz_key of
                            None \<Rightarrow> PNone
                          | Some k \<Rightarrow> Metadata_get d k PNone);
          converted = convert_precursor_mz float_str precursor_mz
      in case float_of_number float_int converted of
           Some (Inl e) \<Rightarrow> Inl e
         | Some (Inr f) \<Rightarrow>
             Inr (fold AList.delete accepted_keys (AList.update ''precursor_mz'' (PFloat f) d))
         | None \<Rightarrow> pepmass_fallback float_str d)"

section \<open>The harmonization pass\<close>

text \<open>Modelled from the spec: \<open>_interpret_pepmass_metadata\<close> of
  \<open>matchms.filtering.interpret_pepmass\<close>, which is not among the sources. The pepmass
  interpreter takes the first token of \<open>pepmass\<close> as the candidate for the precursor
  mass, leaves the field available to the resolver, does not itself write
  \<open>precursor_mz\<close>, and tolerates a missing, scalar or malformed \<open>pepmass\<close> without
  raising: the record it returns is the record it was given.\<close>

definition interpret_pepmass_metadata :: "metadata \<Rightarrow> metadata" where
  "interpret_pepmass_metadata d = d"

definition is_digit :: "char \<Rightarrow> bool" where
  "is_digit c = ((48::nat) \<le> of_char c \<and> of_char c \<le> (57::nat))"

definition digits_value :: "string \<Rightarrow> int" where
  "digits_value s = foldl (\<lambda>n c. 10 * n + (int (of_char c) - 48)) 0 s"

definition all_digits :: "string \<Rightarrow> bool" where
  "all_digits s = (s \<noteq> [] \<and> list_all is_digit s)"

text \<open>A signed numeric string: digits, with one sign in front or behind.\<close>

definition charge_of_string :: "string \<Rightarrow> int option" where
  "charge_of_string s =
     (if all_digits s then Some (digits_value s)
      else if s = [] then None
      else if hd s = CHR ''-'' \<and> all_digits (tl s) then Some (- digits_value (tl s))
      else if hd s = CHR ''+'' \<and> all_digits (tl s) then Some (digits_value (tl s))
      else if last s = CHR ''-'' \<and> all_digits (butlast s) then Some (- digits_value (butlast s))
      else if last s = CHR ''+'' \<and> all_digits (butlast s) then Some (digits_value (butlast s))
      else None)"

text \<open>Modelled from the spec: \<open>_convert_charge_to_int\<close> of
  \<open>matchms.filtering.make_charge_int\<close>, which is not among the sources. The charge coercer
  converts signed numeric strings (\<open>"2+"\<close>, \<open>"-1"\<close>, \<open>"2"\<close>) and floats with zero
  fractional part to an integer; a failed conversion yields no charge (\<open>None\<close>) and never
  an error.\<close>

fun convert_charge_to_int :: "pyval \<Rightarrow> int option" where
  "convert_charge_to_int (PInt i) = Some i"
| "convert_charge_to_int (PBool b) = Some (if b then 1 else 0)"
| "convert_charge_to_int (PStr s) = charge_of_string s"
| "convert_charge_to_int (PFloat (Finite r)) = (if r = of_int \<lfloor>r\<rfloor> then Some \<lfloor>r\<rfloor> else None)"
| "convert_charge_to_int _ = None"

fun isinstance_int :: "pyval \<Rightarrow> bool" where
  "isinstance_int (PInt i) = True"
| "isinstance_int (PBool b) = True"
| "isinstance_int _ = False"

text \<open>The two statements on \<open>ionmode\<close>. \<open>x.lower()\<close> exists for a string only; any other
  value that is not \<open>None\<close> raises AttributeError.\<close>

definition lower_ionmode :: "(string \<Rightarrow> string) \<Rightarrow> metadata \<Rightarrow> error + metadata" where
  "lower_ionmode str_lower d =
     (case Metadata_get d ''ionmode'' PNone of
        PNone \<Rightarrow> Inr d
      | PStr s \<Rightarrow> Inr (AList.update ''ionmode'' (PStr (str_lower s)) d)
      | _ \<Rightarrow> Inl AttributeError)"

definition default_ionmode :: "metadata \<Rightarrow> metadata" where
  "default_ionmode d =
     (if Metadata_get d ''ionmode'' PNone = PNone then AList.update ''ionmode'' (PStr ''n/a'') d
      else d)"

definition charge_to_int :: "metadata \<Rightarrow> metadata" where
  "charge_to_int d =
     (let charge = Metadata_get d ''charge'' PNone
      in if \<not> isinstance_int charge \<and> convert_charge_to_int charge \<noteq> None
         then AList.update ''charge'' (PInt (the (convert_charge_to_int charge))) d
         else d)"

text \<open>
  \<open>harmonize_metadata\<close> first assigns the regex table and the alias table to the store.
  The store is a PickyDict, a class of an external library, and the alias table is loaded
  from a file: what the two assignments do to the stored keys is the parameter
  \<open>install_tables\<close>. The keys the pass itself reads and writes (\<open>pepmass\<close>, \<open>ionmode\<close>,
  \<open>precursor_mz\<close>, \<open>precursormz\<close>, \<open>precursor_mass\<close>, \<open>charge\<close>) are lower-case names without
  blanks or punctuation; the model reads and writes the store under these names.
\<close>

text \<open>
  The pass changes the store in place, statement by statement. \<open>harmonize_run\<close> gives the
  store the pass leaves behind together with the exception it raised, if any: a statement
  that raises does so before it assigns, so the store is then the one the statements before
  it have left.
\<close>

definition harmonize_run ::
  "(metadata \<Rightarrow> metadata) \<Rightarrow> (string \<Rightarrow> string) \<Rightarrow> (string \<Rightarrow> pyfloat option) \<Rightarrow>
   (int \<Rightarrow> pyfloat option) \<Rightarrow> metadata \<Rightarrow> metadata \<times> error option" where
  "harmonize_run install_tables str_lower float_str float_int d =
     (let d0 = interpret_pepmass_metadata (install_tables d)
      in case lower_ionmode str_lower d0 of
           Inl e \<Rightarrow> (d0, Some e)
         | Inr d1 \<Rightarrow>
             (let d2 = default_ionmode d1
              in case add_precursor_mz_metadata float_str float_int d2 of
                   Inl e \<Rightarrow> (d2, Some e)
                 | Inr d3 \<Rightarrow> (charge_to_int d3, None)))"

text \<open>The store after the pass, and the outcome of the call: the store when the pass
  returns, the exception when it raises.\<close>

definition harmonize_store ::
  "(metadata \<Rightarrow> metadata) \<Rightarrow> (string \<Rightarrow> string) \<Rightarrow> (string \<Rightarrow> pyfloat option) \<Rightarrow>
   (int \<Rightarrow> pyfloat option) \<Rightarrow> metadata \<Rightarrow> metadata" where
  "harmonize_store install_tables str_lower float_str float_int d =
     fst (harmonize_run install_tables str_lower float_str float_int d)"

definition harmonize_metadata ::
  "(metadata \<Rightarrow> metadata) \<Rightarrow> (string \<Rightarrow> string) \<Rightarrow> (string \<Rightarrow> pyfloat option) \<Rightarrow>
   (int \<Rightarrow> pyfloat option) \<Rightarrow> metadata \<Rightarrow> error + metadata" where
  "harmonize_metadata install_tables str_lower float_str float_int d =
     (case harmonize_run install_tables str_lower float_str float_int d of
        (r, None) \<Rightarrow> Inr r
      | (r, Some e) \<Rightarrow> Inl e)"

section \<open>Construction\<close>

text \<open>The constructor's argument is any Python object: a mapping or a plain value
  (\<open>None\<close> among them). No plain value is an instance of \<open>Mapping\<close>.\<close>

datatype pyobj = Mapping metadata | Plain pyval

text \<open>Modelled from the spec: the constructor of PickyDict, a class of an external library.
  A normalized mapping created from a collection of keys and values, before any table is
  set, forces every key to lower case; of two keys that normalize to the same key the
  later one overwrites the earlier one.\<close>

definition PickyDict :: "(string \<Rightarrow> string) \<Rightarrow> metadata \<Rightarrow> metadata" where
  "PickyDict str_lower m = fold (\<lambda>(k, v) d. AList.update (str_lower k) v d) m []"

text \<open>The store the constructor creates from its argument, or the ValueError it raises.\<close>

definition init_data :: "(string \<Rightarrow> string) \<Rightarrow> pyobj \<Rightarrow> error + metadata" where
  "init_data str_lower metadata =
     (case metadata of
        Plain PNone \<Rightarrow> Inr (PickyDict str_lower [])
      | Mapping m \<Rightarrow> Inr (PickyDict str_lower m)
      | Plain _ \<Rightarrow> Inl ValueError)"

definition Metadata_init ::
  "(metadata \<Rightarrow> metadata) \<Rightarrow> (string \<Rightarrow> string) \<Rightarrow> (string \<Rightarrow> pyfloat option) \<Rightarrow>
   (int \<Rightarrow> pyfloat option) \<Rightarrow> pyobj \<Rightarrow> bool \<Rightarrow> error + metadata" where
  "Metadata_init install_tables str_lower float_str float_int metadata harmonize_defaults =
     (case init_data str_lower metadata of
        Inl e \<Rightarrow> Inl e
      | Inr d \<Rightarrow>
          if harmonize_defaults
          then harmonize_metadata install_tables str_lower float_str float_int d
          else Inr d)"

section \<open>Instances for the examples\<close>

text \<open>A converter that rejects every input, the values of \<open>float\<close> on the strings and
  ints of the examples (the two instances are evaluated on those strings and on small ints
  only), a store whose keys the tables leave as they are, and the lower-casing of the
  letters \<open>A\<close> to \<open>Z\<close>, which is what \<open>str.lower()\<close> does on a string of ASCII characters
  (the instance is evaluated on such strings only).\<close>

definition rejecting_converter :: "string \<Rightarrow> string \<Rightarrow> string \<Rightarrow> error + pyval" where
  "rejecting_converter s src tgt = Inl ConversionError"

definition float_str_ex :: "string \<Rightarrow> pyfloat option" where
  "float_str_ex s =
     (if s = ''100.5'' then Some (Finite (201 / 2))
      else if s = ''120.5'' then Some (Finite (241 / 2))
      else None)"

definition float_int_ex :: "int \<Rightarrow> pyfloat option" where
  "float_int_ex i = (if \<bar>i\<bar> \<le> 2 ^ 53 then Some (Finite (of_int i)) else None)"

definition keep_keys :: "metadata \<Rightarrow> metadata" where
  "keep_keys d = d"

definition ascii_lower_char :: "char \<Rightarrow> char" where
  "ascii_lower_char c =
     (if (65::nat) \<le> of_char c \<and> of_char c \<le> (90::nat) then char_of (of_char c + (32::nat)) else c)"

definition ascii_lower :: "string \<Rightarrow> string" where
  "ascii_lower s = map ascii_lower_char s"

section \<open>Equality of records\<close>

text \<open>
  A field of a record is a plain Python value or a numpy array; an array is
  one-dimensional and numeric, each element carried as a float. Two array elements are
  equal when they are the same number; NaN equals nothing.
\<close>

datatype field = Py pyval | NdArray "pyfloat list"

definition float_eq :: "pyfloat \<Rightarrow> pyfloat \<Rightarrow> bool" where
  "float_eq a b = (a = b \<and> a \<noteq> NaN)"

text \<open>
  \<open>np.all(value == w)\<close> for an array \<open>value\<close>. Numpy compares element by element and
  broadcasts: two arrays of one length are compared index by index, an array of length
  one or a float scalar is compared with every element of the other operand. What numpy
  does on any other operand is the parameter \<open>numpy_other\<close>, which gives the outcome of
  the branch condition the comparison stands in.
\<close>

definition np_all_eq ::
  "(field \<Rightarrow> field \<Rightarrow> error + bool) \<Rightarrow> pyfloat list \<Rightarrow> field \<Rightarrow> error + bool" where
  "np_all_eq numpy_other xs w =
     (case w of
        NdArray ys \<Rightarrow>
          if length xs = length ys then Inr (list_all2 float_eq xs ys)
          else if length ys = 1 then Inr (list_all (\<lambda>x. float_eq x (hd ys)) xs)
          else if length xs = 1 then Inr (list_all (\<lambda>y. float_eq (hd xs) y) ys)
          else map_sum id Not (numpy_other (NdArray xs) w)
      | Py (PFloat y) \<Rightarrow> Inr (list_all (\<lambda>x. float_eq x y) xs)
      | Py _ \<Rightarrow> map_sum id Not (numpy_other (NdArray xs) w))"

text \<open>
  The condition under which the loop of \<open>__eq__\<close> returns \<open>False\<close> at one item:
  \<open>not np.all(value == w)\<close> when \<open>value\<close> is an array, \<open>value != w\<close> otherwise. Python's
  \<open>!=\<close> on two plain values is the parameter \<open>py_ne\<close>. With a float on the left and an
  array on the right numpy compares element by element, and the truth value of a result
  with two elements or more raises ValueError.
\<close>

fun field_differs ::
  "(pyval \<Rightarrow> pyval \<Rightarrow> bool) \<Rightarrow> (field \<Rightarrow> field \<Rightarrow> error + bool) \<Rightarrow> field \<Rightarrow> field \<Rightarrow> error + bool" where
  "field_differs py_ne numpy_other (NdArray xs) w = map_sum id Not (np_all_eq numpy_other xs w)"
| "field_differs py_ne numpy_other (Py v) (Py w) = Inr (py_ne v w)"
| "field_differs py_ne numpy_other (Py (PFloat x)) (NdArray ys) =
     (if 2 \<le> length ys then Inl ValueError
      else if length ys = 1 then Inr (\<not> float_eq x (hd ys))
      else numpy_other (Py (PFloat x)) (NdArray ys))"
| "field_differs py_ne numpy_other (Py v) (NdArray ys) = numpy_other (Py v) (NdArray ys)"

fun eq_items ::
  "(pyval \<Rightarrow> pyval \<Rightarrow> bool) \<Rightarrow> (field \<Rightarrow> field \<Rightarrow> error + bool) \<Rightarrow>
   (string \<times> field) list \<Rightarrow> (string \<times> field) list \<Rightarrow> error + bool" where
  "eq_items py_ne numpy_other [] other = Inr True"
| "eq_items py_ne numpy_other ((key, v) # items) other =
     (case field_differs py_ne numpy_other v (Metadata_get other key (Py PNone)) of
        Inl e \<Rightarrow> Inl e
      | Inr True \<Rightarrow> Inr False
      | Inr False \<Rightarrow> eq_items py_ne numpy_other items other)"

text \<open>\<open>self.keys() != other.keys()\<close> compares two key views as sets.\<close>

definition keys_differ :: "string list \<Rightarrow> string list \<Rightarrow> bool" where
  "keys_differ ks ks' = (\<not> (list_all (\<lambda>k. k \<in> set ks') ks \<and> list_all (\<lambda>k. k \<in> set ks) ks'))"

definition Metadata_eq ::
  "(pyval \<Rightarrow> pyval \<Rightarrow> bool) \<Rightarrow> (field \<Rightarrow> field \<Rightarrow> error + bool) \<Rightarrow>
   (string \<times> field) list \<Rightarrow> (string \<times> field) list \<Rightarrow> error + bool" where
  "Metadata_eq py_ne numpy_other self other =
     (if keys_differ (map fst self) (map fst other) then Inr False
      else eq_items py_ne numpy_other self other)"

text \<open>
  The equality the specification words: two values of one key are equal when both are
  plain and equal, or both are arrays of one length with every element equal.
\<close>

fun values_equal :: "(pyval \<Rightarrow> pyval \<Rightarrow> bool) \<Rightarrow> field \<Rightarrow> field \<Rightarrow> bool" where
  "values_equal py_ne (Py v) (Py w) = (\<not> py_ne v w)"
| "values_equal py_ne (NdArray xs) (NdArray ys) =
     (length xs = length ys \<and> (\<forall>i < length xs. float_eq (xs ! i) (ys ! i)))"
| "values_equal py_ne _ _ = False"

text \<open>Two fields of one kind: both plain, or both arrays of one length.\<close>

fun same_shape :: "field \<Rightarrow> field \<Rightarrow> bool" where
  "same_shape (Py v) (Py w) = True"
| "same_shape (NdArray xs) (NdArray ys) = (length xs = length ys)"
| "same_shape _ _ = False"

text \<open>Instances for the examples: \<open>!=\<close> on plain values that hold no NaN and do not mix
  ints with floats, and a numpy whose other comparisons raise.\<close>

definition py_ne_ex :: "pyval \<Rightarrow> pyval \<Rightarrow> bool" where
  "py_ne_ex v w = (v \<noteq> w)"

definition numpy_other_ex :: "field \<Rightarrow> field \<Rightarrow> error + bool" where
  "numpy_other_ex a b = Inl ValueError"

section \<open>Properties of clean_inchis\<close>

lemma split_aux_no_marker:
  "\<not> sublist sep s \<Longrightarrow> split_aux sep acc s = [rev acc @ s]"
proof (induction s arbitrary: acc)
  case Nil
  then show ?case by simp
next
  case (Cons c cs)
  have np: "\<not> prefix sep (c # cs)"
    using Cons.prems by (meson prefix_imp_sublist)
  have ns: "\<not> sublist sep cs"
    using Cons.prems by (meson sublist_Cons_right)
  show ?case using np Cons.IH[OF ns, of "c # acc"] by simp
qed

lemma split_quoted:
  assumes "\<not> sublist marker p"
  shows "split (dq # marker @ p) marker = [[dq], p]"
proof -
  have a: "\<not> prefix marker (dq # marker @ p)"
    by (simp add: marker_def dq_def)
  have b: "marker @ p = CHR ''I'' # (''nChI='' @ p)"
    by (simp add: marker_def)
  have c: "split_aux marker [dq] (marker @ p) = [dq] # split_aux marker [] p"
    unfolding b by (simp add: marker_def)
  show ?thesis
    unfolding split_def using a c split_aux_no_marker[OF assms, of "[]"]
    by simp
qed

lemma strip_id:
  assumes "s \<noteq> []" "\<not> is_space (hd s)" "\<not> is_space (last s)"
  shows "strip s = s"
proof -
  have 1: "dropWhile is_space s = s"
    using assms by (cases s) auto
  have 2: "dropWhile is_space (rev s) = rev s"
    using assms by (cases "rev s") (auto simp: last_rev hd_rev)
  show ?thesis by (simp add: strip_def 1 2)
qed

lemma not_empty_entry:
  "\<not> in_empty_entry_types (PStr (dq # marker @ ''1S/'' @ body @ [dq]))"
  by (simp add: empty_entry_strings_def marker_def dq_def nl_def)

text \<open>
  C8, as amended. A quoted value \<open>"InChI=1S/...\<close>\<open>"\<close> without blanks whose payload holds no
  second \<open>InChI=\<close> marker is returned unchanged by the repair, whatever the converter and
  the rescue flag: the payload starts with \<open>1\<close>, so the converter is not called.
\<close>

theorem clean_inchis_canonical_unchanged:
  assumes "CHR '' '' \<notin> set body"
    and "\<not> sublist marker (''1S/'' @ body @ [dq])"
  shows "clean_inchis mol_converter rescue_smiles (PStr (dq # marker @ ''1S/'' @ body @ [dq]))
         = Inr (PStr (dq # marker @ ''1S/'' @ body @ [dq]))"
proof -
  define p where "p = ''1S/'' @ body @ [dq]"
  define s where "s = dq # marker @ p"
  have r: "replace_char CHR '' '' s = s"
    using assms(1) by (auto simp: s_def p_def replace_char_def marker_def dq_def filter_id_conv)
  have sp: "last (split s marker) = p"
    using split_quoted[OF assms(2)] by (simp add: s_def p_def)
  have st: "strip s = s"
    by (rule strip_id) (simp_all add: s_def p_def is_space_def dq_def)
  have rw: "rewrap p = s"
    by (simp add: rewrap_def endswith_def suffix_def s_def p_def)
  have fin: "finish (PStr s) = Inr (PStr s)"
    by (simp add: finish_def st sp rw)
  have hdp: "hd p \<notin> set ''CcON''" "p \<noteq> []"
    by (simp_all add: p_def)
  have ne: "\<not> in_empty_entry_types (PStr s)"
    using not_empty_entry[of body] by (simp add: s_def p_def)
  have "clean_inchis mol_converter rescue_smiles (PStr s) = Inr (PStr s)"
    using ne hdp fin by (simp add: clean_inchis_def Let_def r sp del: in_empty_entry_types.simps)
  then show ?thesis
    by (simp add: s_def p_def)
qed

theorem clean_inchis_canonical_unchanged_witness:
  "CHR '' '' \<notin> set ''C2H6O/c1-2-3'' \<and> \<not> sublist marker (''1S/'' @ ''C2H6O/c1-2-3'' @ [dq]) \<and>
   clean_inchis rejecting_converter True (PStr (dq # marker @ ''1S/'' @ ''C2H6O/c1-2-3'' @ [dq]))
     = Inr (PStr (dq # marker @ ''1S/'' @ ''C2H6O/c1-2-3'' @ [dq]))"
proof -
  have a: "CHR '' '' \<notin> set ''C2H6O/c1-2-3''" by simp
  have b: "\<not> sublist marker (''1S/'' @ ''C2H6O/c1-2-3'' @ [dq])"
    by (simp add: marker_def dq_def sublist_code(3))
  show ?thesis
    using a b clean_inchis_canonical_unchanged[OF a b, of rejecting_converter True] by blast
qed

text \<open>
  C8, counterexample. The value \<open>"InChI=1S/InChI=2"\<close> is quoted, has no whitespace and a
  payload that starts with \<open>1\<close>; the repair keeps only what follows the last marker and
  returns \<open>"InChI=2"\<close>.
\<close>

theorem clean_inchis_second_marker_counterexample:
  "clean_inchis rejecting_converter True (PStr (dq # ''InChI=1S/InChI=2'' @ [dq]))
     = Inr (PStr (dq # ''InChI=2'' @ [dq]))"
  by code_simp

text \<open>
  C9, as amended. A value that is one of the strings of the list of empty entries
  (\<open>N/A\<close>, \<open>n/a\<close>, \<open>NA\<close>, \<open>0\<close>, two double quotes, the empty string, \<open>nodata\<close>,
  \<open>"InChI=n/a"\<close>, \<open>"InChI="\<close>, \<open>InChI=1S/N\<close> with a newline, and tab, carriage return,
  newline) is replaced by \<open>n/a\<close>, whatever the converter: also a converter that rejects
  every input, so the converter is not called.
\<close>

theorem clean_inchis_empty_entry:
  assumes "s \<in> set [''N/A'', ''n/a'', ''NA'', ''0'', [dq, dq], [], ''nodata'',
                     dq # ''InChI=n/a'' @ [dq], dq # ''InChI='' @ [dq],
                     ''InChI=1S/N'' @ [CHR 0x0A], [CHR 0x09, CHR 0x0D, CHR 0x0A]]"
  shows "clean_inchis mol_converter rescue_smiles (PStr s) = Inr (PStr ''n/a'')"
proof -
  have "in_empty_entry_types (PStr s)"
    using assms by (simp add: empty_entry_strings_def nl_def)
  then show ?thesis
    by (simp add: clean_inchis_def del: in_empty_entry_types.simps)
qed

theorem clean_inchis_empty_entry_witness:
  "clean_inchis rejecting_converter True (PStr (dq # ''InChI='' @ [dq])) = Inr (PStr ''n/a'')"
  using clean_inchis_empty_entry[of "dq # ''InChI='' @ [dq]" rejecting_converter True]
  by simp

text \<open>
  C9, counterexample. Two whitespace-only strings that are not in the list: a single
  blank raises IndexError (blanks are removed first and the empty rest has no first
  character), and a single newline is rewrapped to \<open>"InChI="\<close>.
\<close>

theorem clean_inchis_whitespace_counterexample:
  "clean_inchis rejecting_converter True (PStr '' '') = Inl IndexError \<and>
   clean_inchis rejecting_converter True (PStr [CHR 0x0A]) = Inr (PStr (dq # ''InChI='' @ [dq]))"
  by code_simp

text \<open>
  C10. When the record has no \<open>inchi\<close> key, the lookup yields \<open>None\<close>, which is not in
  the list of empty entries, and \<open>None.replace\<close> raises AttributeError.
\<close>

theorem clean_inchis_missing_key_raises:
  assumes "map_of d ''inchi'' = None"
  shows "clean_inchis mol_converter rescue_smiles (Metadata_getitem d ''inchi'')
         = Inl AttributeError"
  using assms by (simp add: Metadata_getitem_def Metadata_get_def clean_inchis_def)

theorem clean_inchis_missing_key_raises_witness:
  "map_of [(''smiles'', PStr ''CCO'')] ''inchi'' = None \<and>
   clean_inchis rejecting_converter True
     (Metadata_getitem [(''smiles'', PStr ''CCO'')] ''inchi'') = Inl AttributeError"
proof -
  have a: "map_of [(''smiles'', PStr ''CCO'')] ''inchi'' = None" by simp
  show ?thesis
    using a clean_inchis_missing_key_raises[OF a, of rejecting_converter True] by blast
qed

section \<open>Properties of the precursor m/z resolution\<close>

text \<open>
  C1, as amended. Let \<open>key\<close> be the first present key among \<open>precursor_mz\<close>,
  \<open>precursormz\<close> and \<open>precursor_mass\<close>, and \<open>c\<close> the conversion of its value. When \<open>c\<close>
  is a number that \<open>float\<close> accepts, the result stores that float under \<open>precursor_mz\<close>,
  holds neither alias key and keeps \<open>pepmass\<close>. When \<open>c\<close> is no number, a \<open>pepmass\<close> whose
  first token converts has that token stored as it is under \<open>precursor_mz\<close>; with
  \<open>pepmass\<close> absent or null, or its first token not convertible, the record is returned
  unchanged, so an absent \<open>precursor_mz\<close> stays absent.
\<close>

theorem add_precursor_mz_metadata_resolution:
  assumes key: "get_first_common_element (map fst d) [''precursor_mz'', ''precursormz'', ''precursor_mass''] = key"
    and c: "convert_precursor_mz float_str (case key of None \<Rightarrow> PNone | Some k \<Rightarrow> Metadata_get d k PNone) = c"
    and p: "Metadata_get d ''pepmass'' PNone = pepmass"
  shows
   "(\<forall>f. float_of_number float_int c = Some (Inr f) \<longrightarrow>
       (\<exists>r. add_precursor_mz_metadata float_str float_int d = Inr r \<and>
            r = AList.delete ''precursor_mass'' (AList.delete ''precursormz''
                  (AList.update ''precursor_mz'' (PFloat f) d)) \<and>
            map_of r ''precursor_mz'' = Some (PFloat f) \<and>
            map_of r ''precursormz'' = None \<and> map_of r ''precursor_mass'' = None \<and>
            map_of r ''pepmass'' = map_of d ''pepmass'')) \<and>
    (float_of_number float_int c = None \<longrightarrow>
       (\<forall>t. pepmass \<noteq> PNone \<and> subscript0 pepmass = Inr t \<and>
            convert_precursor_mz float_str t \<noteq> PNone \<longrightarrow>
            add_precursor_mz_metadata float_str float_int d
              = Inr (AList.update ''precursor_mz'' t d)) \<and>
       (pepmass = PNone \<or>
        (\<exists>t. subscript0 pepmass = Inr t \<and> convert_precursor_mz float_str t = PNone) \<longrightarrow>
            add_precursor_mz_metadata float_str float_int d = Inr d))"
proof -
  have k: "get_first_common_element (map fst d) (default_key # accepted_keys) = key"
    using key by (simp add: default_key_def accepted_keys_def)
  have step: "add_precursor_mz_metadata float_str float_int d =
      (case float_of_number float_int c of
           Some (Inl e) \<Rightarrow> Inl e
         | Some (Inr f) \<Rightarrow>
             Inr (fold AList.delete accepted_keys (AList.update ''precursor_mz'' (PFloat f) d))
         | None \<Rightarrow> pepmass_fallback float_str d)"
    unfolding add_precursor_mz_metadata_def Let_def k c ..
  have del: "\<And>x. fold AList.delete accepted_keys x
      = AList.delete ''precursor_mass'' (AList.delete ''precursormz'' x)"
    by (simp add: accepted_keys_def)
  have A: "\<forall>f. float_of_number float_int c = Some (Inr f) \<longrightarrow>
       (\<exists>r. add_precursor_mz_metadata float_str float_int d = Inr r \<and>
            r = AList.delete ''precursor_mass'' (AList.delete ''precursormz''
                  (AList.update ''precursor_mz'' (PFloat f) d)) \<and>
            map_of r ''precursor_mz'' = Some (PFloat f) \<and>
            map_of r ''precursormz'' = None \<and> map_of r ''precursor_mass'' = None \<and>
            map_of r ''pepmass'' = map_of d ''pepmass'')"
    by (simp add: step del delete_conv' update_conv')
  have B: "float_of_number float_int c = None \<Longrightarrow>
       add_precursor_mz_metadata float_str float_int d = pepmass_fallback float_str d"
    by (simp add: step)
  have C: "\<forall>t. pepmass \<noteq> PNone \<and> subscript0 pepmass = Inr t \<and>
            convert_precursor_mz float_str t \<noteq> PNone \<longrightarrow>
            pepmass_fallback float_str d = Inr (AList.update ''precursor_mz'' t d)"
    by (simp add: pepmass_fallback_def Let_def p)
  have D: "pepmass = PNone \<or>
        (\<exists>t. subscript0 pepmass = Inr t \<and> convert_precursor_mz float_str t = PNone) \<longrightarrow>
            pepmass_fallback float_str d = Inr d"
    by (auto simp: pepmass_fallback_def Let_def p)
  show ?thesis
    using A B C D by simp
qed

theorem add_precursor_mz_metadata_resolution_witness:
  "add_precursor_mz_metadata float_str_ex float_int_ex
     [(''precursormz'', PStr ''100.5''), (''pepmass'', PList [PFloat (Finite (201 / 4)), PInt 10])]
   = Inr [(''pepmass'', PList [PFloat (Finite (201 / 4)), PInt 10]),
          (''precursor_mz'', PFloat (Finite (201 / 2)))] \<and>
   add_precursor_mz_metadata float_str_ex float_int_ex
     [(''pepmass'', PList [PFloat (Finite (241 / 2)), PInt 5])]
   = Inr [(''pepmass'', PList [PFloat (Finite (241 / 2)), PInt 5]),
          (''precursor_mz'', PFloat (Finite (241 / 2)))] \<and>
   add_precursor_mz_metadata float_str_ex float_int_ex [(''title'', PStr ''x'')]
   = Inr [(''title'', PStr ''x'')]"
proof -
  let ?d1 = "[(''precursormz'', PStr ''100.5''),
              (''pepmass'', PList [PFloat (Finite (201 / 4)), PInt 10])]"
  let ?d2 = "[(''pepmass'', PList [PFloat (Finite (241 / 2)), PInt 5])]"
  let ?d3 = "[(''title'', PStr ''x'')]"
  let ?keys = "[''precursor_mz'', ''precursormz'', ''precursor_mass'']"
  have k1: "get_first_common_element (map fst ?d1) ?keys = Some ''precursormz''"
    by code_simp
  have c1: "convert_precursor_mz float_str_ex
              (case Some ''precursormz'' of None \<Rightarrow> PNone | Some k \<Rightarrow> Metadata_get ?d1 k PNone)
            = PFloat (Finite (201 / 2))"
    by code_simp
  have f1: "float_of_number float_int_ex (PFloat (Finite (201 / 2))) = Some (Inr (Finite (201 / 2)))"
    by simp
  have r1: "add_precursor_mz_metadata float_str_ex float_int_ex ?d1
            = Inr (AList.delete ''precursor_mass'' (AList.delete ''precursormz''
                  (AList.update ''precursor_mz'' (PFloat (Finite (201 / 2))) ?d1)))"
    using add_precursor_mz_metadata_resolution[OF k1 c1 refl, of float_int_ex] f1 by blast
  have k2: "get_first_common_element (map fst ?d2) ?keys = None"
    by code_simp
  have c2: "convert_precursor_mz float_str_ex
              (case None of None \<Rightarrow> PNone | Some k \<Rightarrow> Metadata_get ?d2 k PNone) = PNone"
    by simp
  have p2: "Metadata_get ?d2 ''pepmass'' PNone = PList [PFloat (Finite (241 / 2)), PInt 5]"
    by (simp add: Metadata_get_def)
  have t2: "PList [PFloat (Finite (241 / 2)), PInt 5] \<noteq> PNone \<and>
            subscript0 (PList [PFloat (Finite (241 / 2)), PInt 5]) = Inr (PFloat (Finite (241 / 2))) \<and>
            convert_precursor_mz float_str_ex (PFloat (Finite (241 / 2))) \<noteq> PNone"
    by simp
  have fn: "float_of_number float_int_ex PNone = None"
    by simp
  have r2: "add_precursor_mz_metadata float_str_ex float_int_ex ?d2
            = Inr (AList.update ''precursor_mz'' (PFloat (Finite (241 / 2))) ?d2)"
    using add_precursor_mz_metadata_resolution[OF k2 c2 p2, of float_int_ex] fn t2 by blast
  have k3: "get_first_common_element (map fst ?d3) ?keys = None"
    by code_simp
  have c3: "convert_precursor_mz float_str_ex
              (case None of None \<Rightarrow> PNone | Some k \<Rightarrow> Metadata_get ?d3 k PNone) = PNone"
    by simp
  have p3: "Metadata_get ?d3 ''pepmass'' PNone = PNone"
    by (simp add: Metadata_get_def)
  have r3: "add_precursor_mz_metadata float_str_ex float_int_ex ?d3 = Inr ?d3"
    using add_precursor_mz_metadata_resolution[OF k3 c3 p3, of float_int_ex] fn by blast
  show ?thesis
    unfolding r1 r2 r3 by simp
qed

text \<open>
  C1, counterexample. The record holds the alias \<open>precursor_mass\<close> with the coercible
  string \<open>100.5\<close> and a \<open>pepmass\<close>, but the first present key is \<open>precursormz\<close>, whose
  value \<open>abc\<close> does not convert: the resolution falls back to \<open>pepmass\<close>, stores its
  first token and removes no alias key.
\<close>

theorem add_precursor_mz_metadata_later_alias_counterexample:
  "add_precursor_mz_metadata float_str_ex float_int_ex
     [(''precursormz'', PStr ''abc''), (''precursor_mass'', PStr ''100.5''),
      (''pepmass'', PList [PFloat (Finite (201 / 4)), PInt 10])]
   = Inr [(''precursormz'', PStr ''abc''), (''precursor_mass'', PStr ''100.5''),
          (''pepmass'', PList [PFloat (Finite (201 / 4)), PInt 10]),
          (''precursor_mz'', PFloat (Finite (201 / 4)))]"
  by code_simp

text \<open>
  C3. A \<open>pepmass\<close> that is a scalar float raises TypeError, and an empty \<open>pepmass\<close> list
  raises IndexError: the resolution does not degrade to an absent \<open>precursor_mz\<close>.
\<close>

theorem add_precursor_mz_metadata_scalar_pepmass:
  "add_precursor_mz_metadata float_str_ex float_int_ex [(''pepmass'', PFloat (Finite (241 / 2)))]
     = Inl TypeError \<and>
   add_precursor_mz_metadata float_str_ex float_int_ex [(''pepmass'', PList [])]
     = Inl IndexError"
  by code_simp

section \<open>Properties of the harmonization pass\<close>

lemma add_precursor_mz_metadata_other_key:
  assumes "add_precursor_mz_metadata float_str float_int d = Inr r"
    and "k \<notin> {''precursor_mz'', ''precursormz'', ''precursor_mass''}"
  shows "map_of r k = map_of d k"
  using assms
  by (auto simp: add_precursor_mz_metadata_def pepmass_fallback_def Let_def accepted_keys_def
        delete_conv' update_conv'
      split: option.splits sum.splits if_splits)

lemma charge_to_int_other_key:
  "k \<noteq> ''charge'' \<Longrightarrow> map_of (charge_to_int d) k = map_of d k"
  by (simp add: charge_to_int_def Let_def update_conv')

lemma ionmode_fixed:
  assumes "map_of r ''ionmode'' = Some (PStr t)" "str_lower t = t"
  shows "lower_ionmode str_lower r = Inr r \<and> default_ionmode r = r"
  using assms by (simp add: lower_ionmode_def default_ionmode_def Metadata_get_def update_triv)

lemma ionmode_statements_string:
  assumes "Metadata_get d ''ionmode'' PNone = PStr s"
  shows "\<exists>d1. lower_ionmode str_lower d = Inr d1 \<and>
              map_of (default_ionmode d1) ''ionmode'' = Some (PStr (str_lower s))"
  using assms
  by (simp add: lower_ionmode_def default_ionmode_def Metadata_get_def update_conv')

lemma ionmode_statements_none:
  assumes "Metadata_get d ''ionmode'' PNone = PNone"
  shows "\<exists>d1. lower_ionmode str_lower d = Inr d1 \<and>
              map_of (default_ionmode d1) ''ionmode'' = Some (PStr ''n/a'')"
  using assms
  by (simp add: lower_ionmode_def default_ionmode_def update_conv')

lemma harmonize_store_ionmode:
  assumes "lower_ionmode str_lower (install_tables d) = Inr d1"
  shows "map_of (harmonize_store install_tables str_lower float_str float_int d) ''ionmode''
         = map_of (default_ionmode d1) ''ionmode''"
proof (cases "add_precursor_mz_metadata float_str float_int (default_ionmode d1)")
  case (Inl e)
  then show ?thesis
    using assms
    by (simp add: harmonize_store_def harmonize_run_def interpret_pepmass_metadata_def Let_def)
next
  case (Inr d3)
  have "map_of (charge_to_int d3) ''ionmode'' = map_of (default_ionmode d1) ''ionmode''"
    using add_precursor_mz_metadata_other_key[OF Inr, of "''ionmode''"]
      charge_to_int_other_key[of "''ionmode''" d3] by simp
  then show ?thesis
    using assms Inr
    by (simp add: harmonize_store_def harmonize_run_def interpret_pepmass_metadata_def Let_def)
qed

lemma harmonize_metadata_store:
  "harmonize_metadata install_tables str_lower float_str float_int d = Inr r \<Longrightarrow>
   harmonize_store install_tables str_lower float_str float_int d = r"
  by (auto simp: harmonize_metadata_def harmonize_store_def split: prod.splits option.splits)

text \<open>
  C5, as amended. Let the store, once the key tables are installed, hold a string under
  \<open>ionmode\<close>, or \<open>None\<close>, or no such key. Then the store the pass leaves behind holds
  \<open>ionmode\<close>, also when a later statement of the pass raises: the lower-cased string in
  the first case, \<open>n/a\<close> in the other two. Where \<open>str.lower()\<close> leaves that value as it
  is, the two statements on \<open>ionmode\<close> leave the store as it is, so the normalization is
  idempotent. When the pass returns, the store is the record returned.
\<close>

theorem harmonize_metadata_ionmode:
  "(\<forall>s. Metadata_get (install_tables d) ''ionmode'' PNone = PStr s \<longrightarrow>
        map_of (harmonize_store install_tables str_lower float_str float_int d) ''ionmode''
          = Some (PStr (str_lower s)) \<and>
        (str_lower (str_lower s) = str_lower s \<longrightarrow>
           lower_ionmode str_lower (harmonize_store install_tables str_lower float_str float_int d)
             = Inr (harmonize_store install_tables str_lower float_str float_int d) \<and>
           default_ionmode (harmonize_store install_tables str_lower float_str float_int d)
             = harmonize_store install_tables str_lower float_str float_int d)) \<and>
   (Metadata_get (install_tables d) ''ionmode'' PNone = PNone \<longrightarrow>
        map_of (harmonize_store install_tables str_lower float_str float_int d) ''ionmode''
          = Some (PStr ''n/a'') \<and>
        (str_lower ''n/a'' = ''n/a'' \<longrightarrow>
           lower_ionmode str_lower (harmonize_store install_tables str_lower float_str float_int d)
             = Inr (harmonize_store install_tables str_lower float_str float_int d) \<and>
           default_ionmode (harmonize_store install_tables str_lower float_str float_int d)
             = harmonize_store install_tables str_lower float_str float_int d)) \<and>
   (\<forall>r. harmonize_metadata install_tables str_lower float_str float_int d = Inr r \<longrightarrow>
        harmonize_store install_tables str_lower float_str float_int d = r)"
proof -
  let ?st = "harmonize_store install_tables str_lower float_str float_int d"
  have A: "\<And>s. Metadata_get (install_tables d) ''ionmode'' PNone = PStr s \<Longrightarrow>
        map_of ?st ''ionmode'' = Some (PStr (str_lower s))"
  proof -
    fix s assume "Metadata_get (install_tables d) ''ionmode'' PNone = PStr s"
    from ionmode_statements_string[OF this, of str_lower] obtain d1 where
      "lower_ionmode str_lower (install_tables d) = Inr d1"
      "map_of (default_ionmode d1) ''ionmode'' = Some (PStr (str_lower s))" by blast
    then show "map_of ?st ''ionmode'' = Some (PStr (str_lower s))"
      using harmonize_store_ionmode[of str_lower install_tables d d1 float_str float_int] by simp
  qed
  have B: "Metadata_get (install_tables d) ''ionmode'' PNone = PNone \<Longrightarrow>
        map_of ?st ''ionmode'' = Some (PStr ''n/a'')"
  proof -
    assume "Metadata_get (install_tables d) ''ionmode'' PNone = PNone"
    from ionmode_statements_none[OF this, of str_lower] obtain d1 where
      "lower_ionmode str_lower (install_tables d) = Inr d1"
      "map_of (default_ionmode d1) ''ionmode'' = Some (PStr ''n/a'')" by blast
    then show "map_of ?st ''ionmode'' = Some (PStr ''n/a'')"
      using harmonize_store_ionmode[of str_lower install_tables d d1 float_str float_int] by simp
  qed
  show ?thesis
    using A B ionmode_fixed[of ?st _ str_lower] harmonize_metadata_store by blast
qed

theorem harmonize_metadata_ionmode_witness:
  "harmonize_store keep_keys ascii_lower float_str_ex float_int_ex [(''ionmode'', PStr ''POSITIVE'')]
     = [(''ionmode'', PStr ''positive'')] \<and>
   lower_ionmode ascii_lower [(''ionmode'', PStr ''positive'')] = Inr [(''ionmode'', PStr ''positive'')] \<and>
   harmonize_metadata keep_keys ascii_lower float_str_ex float_int_ex
     [(''pepmass'', PFloat (Finite (241 / 2))), (''ionmode'', PStr ''Negative'')] = Inl TypeError \<and>
   map_of (harmonize_store keep_keys ascii_lower float_str_ex float_int_ex
     [(''pepmass'', PFloat (Finite (241 / 2))), (''ionmode'', PStr ''Negative'')]) ''ionmode''
     = Some (PStr ''negative'') \<and>
   map_of (harmonize_store keep_keys ascii_lower float_str_ex float_int_ex []) ''ionmode''
     = Some (PStr ''n/a'')"
proof -
  let ?d1 = "[(''ionmode'', PStr ''POSITIVE'')]"
  let ?d2 = "[(''pepmass'', PFloat (Finite (241 / 2))), (''ionmode'', PStr ''Negative'')]"
  have r1: "harmonize_metadata keep_keys ascii_lower float_str_ex float_int_ex ?d1
            = Inr [(''ionmode'', PStr ''positive'')]"
    by code_simp
  have g1: "Metadata_get (keep_keys ?d1) ''ionmode'' PNone = PStr ''POSITIVE''"
    by (simp add: keep_keys_def Metadata_get_def)
  have l1: "ascii_lower ''POSITIVE'' = ''positive''"
    "ascii_lower (ascii_lower ''POSITIVE'') = ascii_lower ''POSITIVE''"
    by code_simp+
  have g2: "Metadata_get (keep_keys ?d2) ''ionmode'' PNone = PStr ''Negative''"
    by (simp add: keep_keys_def Metadata_get_def)
  have l2: "ascii_lower ''Negative'' = ''negative''"
    by code_simp
  have e2: "harmonize_metadata keep_keys ascii_lower float_str_ex float_int_ex ?d2 = Inl TypeError"
    by code_simp
  have g3: "Metadata_get (keep_keys []) ''ionmode'' PNone = PNone"
    by (simp add: keep_keys_def Metadata_get_def)
  have s1: "harmonize_store keep_keys ascii_lower float_str_ex float_int_ex ?d1
            = [(''ionmode'', PStr ''positive'')]"
    using harmonize_metadata_ionmode[of keep_keys ?d1 ascii_lower float_str_ex float_int_ex] r1
    by blast
  have f1: "lower_ionmode ascii_lower [(''ionmode'', PStr ''positive'')]
            = Inr [(''ionmode'', PStr ''positive'')]"
    using harmonize_metadata_ionmode[of keep_keys ?d1 ascii_lower float_str_ex float_int_ex]
      g1 l1(2) unfolding s1 by blast
  have s2: "map_of (harmonize_store keep_keys ascii_lower float_str_ex float_int_ex ?d2) ''ionmode''
            = Some (PStr ''negative'')"
    using harmonize_metadata_ionmode[of keep_keys ?d2 ascii_lower float_str_ex float_int_ex]
      g2 unfolding l2[symmetric] by blast
  have s3: "map_of (harmonize_store keep_keys ascii_lower float_str_ex float_int_ex []) ''ionmode''
            = Some (PStr ''n/a'')"
    using harmonize_metadata_ionmode[of keep_keys "[]" ascii_lower float_str_ex float_int_ex]
      g3 by blast
  show ?thesis
    using s1 f1 e2 s2 s3 by simp
qed

text \<open>
  C5, counterexample. With the int 1 under \<open>ionmode\<close> the first statement on \<open>ionmode\<close>
  raises AttributeError: the value is present and not null, and it is not replaced by a
  lower-cased form.
\<close>

theorem harmonize_metadata_ionmode_int_counterexample:
  "harmonize_metadata keep_keys ascii_lower float_str_ex float_int_ex [(''ionmode'', PInt 1)]
     = Inl AttributeError \<and>
   harmonize_store keep_keys ascii_lower float_str_ex float_int_ex [(''ionmode'', PInt 1)]
     = [(''ionmode'', PInt 1)]"
  by code_simp

lemma charge_examples:
  "convert_charge_to_int (PStr ''2+'') = Some 2"
  "convert_charge_to_int (PStr ''2'') = Some 2"
  "convert_charge_to_int (PStr ''not-a-charge'') = None"
  by code_simp+

text \<open>
  C6. The charge statement overwrites \<open>charge\<close> only with the integer of a successful
  conversion: a charge that is already an int is left unchanged, \<open>"2+"\<close> and \<open>"2"\<close> are
  replaced by the integer 2, and \<open>"not-a-charge"\<close> leaves the record unchanged. The
  statement has no failing outcome.
\<close>

theorem charge_to_int_coercion:
  "(isinstance_int (Metadata_get d ''charge'' PNone) \<longrightarrow> charge_to_int d = d) \<and>
   (Metadata_get d ''charge'' PNone = PStr ''2+'' \<or> Metadata_get d ''charge'' PNone = PStr ''2''
      \<longrightarrow> charge_to_int d = AList.update ''charge'' (PInt 2) d) \<and>
   (Metadata_get d ''charge'' PNone = PStr ''not-a-charge'' \<longrightarrow> charge_to_int d = d) \<and>
   (charge_to_int d \<noteq> d \<longrightarrow>
      (\<exists>n. convert_charge_to_int (Metadata_get d ''charge'' PNone) = Some n \<and>
           charge_to_int d = AList.update ''charge'' (PInt n) d))"
proof -
  have a: "isinstance_int (Metadata_get d ''charge'' PNone) \<longrightarrow> charge_to_int d = d"
    by (simp add: charge_to_int_def Let_def)
  have b: "Metadata_get d ''charge'' PNone = PStr ''2+'' \<or> Metadata_get d ''charge'' PNone = PStr ''2''
      \<longrightarrow> charge_to_int d = AList.update ''charge'' (PInt 2) d"
    using charge_examples(1,2)
    by (auto simp: charge_to_int_def Let_def simp del: convert_charge_to_int.simps)
  have c: "Metadata_get d ''charge'' PNone = PStr ''not-a-charge'' \<longrightarrow> charge_to_int d = d"
    using charge_examples(3)
    by (auto simp: charge_to_int_def Let_def simp del: convert_charge_to_int.simps)
  have e: "charge_to_int d \<noteq> d \<longrightarrow>
      (\<exists>n. convert_charge_to_int (Metadata_get d ''charge'' PNone) = Some n \<and>
           charge_to_int d = AList.update ''charge'' (PInt n) d)"
    by (auto simp: charge_to_int_def Let_def simp del: convert_charge_to_int.simps)
  show ?thesis
    using a b c e by blast
qed

theorem charge_to_int_coercion_witness:
  "charge_to_int [(''charge'', PInt 3)] = [(''charge'', PInt 3)] \<and>
   charge_to_int [(''charge'', PStr ''2+'')] = [(''charge'', PInt 2)] \<and>
   charge_to_int [(''charge'', PStr ''2'')] = [(''charge'', PInt 2)] \<and>
   charge_to_int [(''charge'', PStr ''not-a-charge'')] = [(''charge'', PStr ''not-a-charge'')]"
  using charge_to_int_coercion[of "[(''charge'', PInt 3)]"]
    charge_to_int_coercion[of "[(''charge'', PStr ''2+'')]"]
    charge_to_int_coercion[of "[(''charge'', PStr ''2'')]"]
    charge_to_int_coercion[of "[(''charge'', PStr ''not-a-charge'')]"]
  by (simp add: Metadata_get_def)

section \<open>Properties of the construction\<close>

lemma update_new_key:
  "k \<notin> fst ` set al \<Longrightarrow> AList.update k v al = al @ [(k, v)]"
  by (induction al) auto

lemma PickyDict_fold:
  assumes "distinct (map fst m)" "\<forall>k \<in> fst ` set m. str_lower k = k"
    "fst ` set m \<inter> fst ` set acc = {}"
  shows "fold (\<lambda>(k, v) d. AList.update (str_lower k) v d) m acc = acc @ m"
  using assms
proof (induction m arbitrary: acc)
  case Nil
  then show ?case by simp
next
  case (Cons kv m)
  obtain k v where kv: "kv = (k, v)" by (cases kv)
  have lk: "str_lower k = k" using Cons.prems(2) kv by simp
  have nk: "k \<notin> fst ` set acc" using Cons.prems(3) kv by auto
  have d: "distinct (map fst m)" "\<forall>k \<in> fst ` set m. str_lower k = k"
    using Cons.prems by simp_all
  have i: "fst ` set m \<inter> fst ` set (acc @ [(k, v)]) = {}"
    using Cons.prems(1,3) kv by auto
  show ?case
    using Cons.IH[OF d i] by (simp add: kv lk update_new_key[OF nk])
qed

lemma PickyDict_canonical:
  "distinct (map fst m) \<Longrightarrow> \<forall>k \<in> fst ` set m. str_lower k = k \<Longrightarrow> PickyDict str_lower m = m"
  using PickyDict_fold[where m = m and acc = "[]" and str_lower = str_lower]
  by (simp add: PickyDict_def)

text \<open>
  C7. An argument that is neither a mapping nor \<open>None\<close> makes the constructor raise
  ValueError, whatever \<open>harmonize_defaults\<close> is, and no store results. For \<open>None\<close> the
  store is created empty and for a mapping it is created over that mapping (the mapping
  itself when its keys are distinct and lower-case). The record is this store, harmonized
  when \<open>harmonize_defaults\<close> is true.
\<close>

theorem Metadata_init_argument:
  "(v \<noteq> PNone \<longrightarrow>
      init_data str_lower (Plain v) = Inl ValueError \<and>
      Metadata_init install_tables str_lower float_str float_int (Plain v) harmonize_defaults = Inl ValueError) \<and>
   init_data str_lower (Plain PNone) = Inr [] \<and>
   init_data str_lower (Mapping m) = Inr (PickyDict str_lower m) \<and>
   (distinct (map fst m) \<and> (\<forall>k \<in> fst ` set m. str_lower k = k) \<longrightarrow> init_data str_lower (Mapping m) = Inr m) \<and>
   Metadata_init install_tables str_lower float_str float_int (Plain PNone) False = Inr [] \<and>
   Metadata_init install_tables str_lower float_str float_int (Mapping m) False = Inr (PickyDict str_lower m) \<and>
   Metadata_init install_tables str_lower float_str float_int (Plain PNone) True
     = harmonize_metadata install_tables str_lower float_str float_int [] \<and>
   Metadata_init install_tables str_lower float_str float_int (Mapping m) True
     = harmonize_metadata install_tables str_lower float_str float_int (PickyDict str_lower m)"
proof -
  have e: "v \<noteq> PNone \<longrightarrow>
      init_data str_lower (Plain v) = Inl ValueError \<and>
      Metadata_init install_tables str_lower float_str float_int (Plain v) harmonize_defaults = Inl ValueError"
    by (cases v) (simp_all add: Metadata_init_def init_data_def)
  have c: "distinct (map fst m) \<and> (\<forall>k \<in> fst ` set m. str_lower k = k) \<longrightarrow>
      init_data str_lower (Mapping m) = Inr m"
    using PickyDict_canonical[where m = m and str_lower = str_lower] by (simp add: init_data_def)
  show ?thesis
    using e c by (simp add: Metadata_init_def init_data_def PickyDict_def)
qed

theorem Metadata_init_argument_witness:
  "PStr ''mz'' \<noteq> PNone \<and>
   Metadata_init keep_keys ascii_lower float_str_ex float_int_ex (Plain (PStr ''mz'')) True = Inl ValueError \<and>
   init_data ascii_lower (Mapping [(''ionmode'', PStr ''positive'')]) = Inr [(''ionmode'', PStr ''positive'')]"
proof -
  have a: "PStr ''mz'' \<noteq> PNone" by simp
  have b: "distinct (map fst [(''ionmode'', PStr ''positive'')]) \<and>
           (\<forall>k \<in> fst ` set [(''ionmode'', PStr ''positive'')]. ascii_lower k = k)"
    by (simp add: ascii_lower_def ascii_lower_char_def)
  show ?thesis
    using a b
      Metadata_init_argument[where v = "PStr ''mz''" and str_lower = ascii_lower
        and install_tables = keep_keys and float_str = float_str_ex and float_int = float_int_ex
        and harmonize_defaults = True and m = "[(''ionmode'', PStr ''positive'')]"]
    by blast
qed

section \<open>Idempotence of the harmonization pass\<close>

lemma harmonize_metadata_steps:
  assumes "harmonize_metadata install_tables str_lower float_str float_int d = Inr r"
  obtains d1 d2 where
    "lower_ionmode str_lower (install_tables d) = Inr d1"
    "add_precursor_mz_metadata float_str float_int (default_ionmode d1) = Inr d2"
    "r = charge_to_int d2"
  using assms
  by (auto simp: harmonize_metadata_def harmonize_run_def interpret_pepmass_metadata_def Let_def
      split: sum.splits)

lemma harmonize_metadata_from_steps:
  assumes "lower_ionmode str_lower (install_tables d) = Inr d1"
    "add_precursor_mz_metadata float_str float_int (default_ionmode d1) = Inr d2"
  shows "harmonize_metadata install_tables str_lower float_str float_int d = Inr (charge_to_int d2)"
  using assms
  by (simp add: harmonize_metadata_def harmonize_run_def interpret_pepmass_metadata_def Let_def)

lemma charge_to_int_idem: "charge_to_int (charge_to_int d) = charge_to_int d"
  by (simp add: charge_to_int_def Let_def Metadata_get_def update_conv')

lemma key_present: "k \<in> set (map fst d) \<longleftrightarrow> map_of d k \<noteq> None"
  by (simp add: map_of_eq_None_iff)

lemma map_of_absent: "map_of d k = None \<Longrightarrow> k \<notin> fst ` set d"
  by (simp add: map_of_eq_None_iff)

text \<open>The value the resolver converts: that of the first present key, \<open>None\<close> without one.\<close>

lemma first_value_same:
  assumes "\<forall>k \<in> {''precursor_mz'', ''precursormz'', ''precursor_mass''}. map_of x k = map_of y k"
  shows "(case get_first_common_element (map fst x) (default_key # accepted_keys) of
            None \<Rightarrow> PNone | Some k \<Rightarrow> Metadata_get x k PNone)
       = (case get_first_common_element (map fst y) (default_key # accepted_keys) of
            None \<Rightarrow> PNone | Some k \<Rightarrow> Metadata_get y k PNone)"
proof -
  have m: "\<And>k. k \<in> {''precursor_mz'', ''precursormz'', ''precursor_mass''} \<Longrightarrow>
             (k \<in> set (map fst x)) = (k \<in> set (map fst y))"
  proof -
    fix k assume "k \<in> {''precursor_mz'', ''precursormz'', ''precursor_mass''}"
    then have "map_of x k = map_of y k" using assms by blast
    then show "(k \<in> set (map fst x)) = (k \<in> set (map fst y))"
      by (simp only: key_present)
  qed
  have g: "get_first_common_element (map fst x) (default_key # accepted_keys)
         = get_first_common_element (map fst y) (default_key # accepted_keys)"
    using m by (simp add: get_first_common_element_def default_key_def accepted_keys_def)
  have kin: "\<And>k. get_first_common_element (map fst y) (default_key # accepted_keys) = Some k
               \<Longrightarrow> k \<in> {''precursor_mz'', ''precursormz'', ''precursor_mass''}"
    by (auto simp: get_first_common_element_def default_key_def accepted_keys_def
        split: if_splits)
  show ?thesis
    unfolding g using kin assms by (auto simp: Metadata_get_def split: option.splits)
qed

lemma add_precursor_mz_metadata_float_fixed:
  assumes "map_of x ''precursor_mz'' = Some (PFloat f)"
    and "map_of x ''precursormz'' = None" and "map_of x ''precursor_mass'' = None"
  shows "add_precursor_mz_metadata float_str float_int x = Inr x"
proof -
  have "''precursor_mz'' \<in> set (map fst x)"
    using assms(1) by (metis key_present option.distinct(1))
  then have k: "get_first_common_element (map fst x) (default_key # accepted_keys)
                = Some ''precursor_mz''"
    by (simp add: get_first_common_element_def default_key_def)
  have g: "Metadata_get x ''precursor_mz'' PNone = PFloat f"
    using assms(1) by (simp add: Metadata_get_def)
  have u: "AList.update ''precursor_mz'' (PFloat f) x = x"
    using assms(1) by (rule update_triv)
  have dl: "fold AList.delete accepted_keys x = x"
    using map_of_absent[OF assms(2)] map_of_absent[OF assms(3)]
    by (simp add: accepted_keys_def)
  show ?thesis
    by (simp add: add_precursor_mz_metadata_def Let_def k g u dl)
qed

lemma add_precursor_mz_metadata_stored:
  assumes "map_of x ''precursor_mz'' = Some t" "convert_precursor_mz float_str t \<noteq> PNone"
    and "add_precursor_mz_metadata float_str float_int x = Inr x'"
  shows "\<exists>f. map_of x' ''precursor_mz'' = Some (PFloat f) \<and>
             map_of x' ''precursormz'' = None \<and> map_of x' ''precursor_mass'' = None"
proof -
  have "''precursor_mz'' \<in> set (map fst x)"
    using assms(1) by (metis key_present option.distinct(1))
  then have k: "get_first_common_element (map fst x) (default_key # accepted_keys)
                = Some ''precursor_mz''"
    by (simp add: get_first_common_element_def default_key_def)
  have g: "Metadata_get x ''precursor_mz'' PNone = t"
    using assms(1) by (simp add: Metadata_get_def)
  have n: "float_of_number float_int (convert_precursor_mz float_str t) \<noteq> None"
    using assms(2) by (cases t) (auto split: if_splits option.splits)
  have step: "add_precursor_mz_metadata float_str float_int x =
      (case float_of_number float_int (convert_precursor_mz float_str t) of
           Some (Inl e) \<Rightarrow> Inl e
         | Some (Inr f) \<Rightarrow>
             Inr (fold AList.delete accepted_keys (AList.update ''precursor_mz'' (PFloat f) x))
         | None \<Rightarrow> pepmass_fallback float_str x)"
    by (simp add: add_precursor_mz_metadata_def Let_def k g)
  show ?thesis
    using assms(3) n unfolding step
    by (auto simp: accepted_keys_def delete_conv' update_conv' split: option.splits sum.splits)
qed

lemma add_precursor_mz_metadata_same_inputs:
  assumes "\<forall>k \<in> {''precursor_mz'', ''precursormz'', ''precursor_mass'', ''pepmass''}.
           map_of x k = map_of y k"
    and "float_of_number float_int (convert_precursor_mz float_str
           (case get_first_common_element (map fst y) (default_key # accepted_keys) of
              None \<Rightarrow> PNone | Some k \<Rightarrow> Metadata_get y k PNone)) = None"
    and "Metadata_get y ''pepmass'' PNone = PNone \<or>
         (\<exists>t. subscript0 (Metadata_get y ''pepmass'' PNone) = Inr t \<and>
              convert_precursor_mz float_str t = PNone)"
  shows "add_precursor_mz_metadata float_str float_int x = Inr x"
proof -
  have v: "(case get_first_common_element (map fst x) (default_key # accepted_keys) of
              None \<Rightarrow> PNone | Some k \<Rightarrow> Metadata_get x k PNone)
         = (case get_first_common_element (map fst y) (default_key # accepted_keys) of
              None \<Rightarrow> PNone | Some k \<Rightarrow> Metadata_get y k PNone)"
    using assms(1) by (intro first_value_same) simp
  have p: "Metadata_get x ''pepmass'' PNone = Metadata_get y ''pepmass'' PNone"
    using assms(1) by (simp add: Metadata_get_def)
  have fx: "pepmass_fallback float_str x = Inr x"
    using assms(3) unfolding pepmass_fallback_def Let_def p by auto
  show ?thesis
    using assms(2) by (simp add: add_precursor_mz_metadata_def Let_def v fx)
qed

lemma add_precursor_mz_metadata_paths:
  assumes "add_precursor_mz_metadata float_str float_int y = Inr y'"
  obtains
    (direct) f where
      "float_of_number float_int (convert_precursor_mz float_str
           (case get_first_common_element (map fst y) (default_key # accepted_keys) of
              None \<Rightarrow> PNone | Some k \<Rightarrow> Metadata_get y k PNone)) = Some (Inr f)"
      "y' = fold AList.delete accepted_keys (AList.update ''precursor_mz'' (PFloat f) y)"
  | (fallback) t where
      "float_of_number float_int (convert_precursor_mz float_str
           (case get_first_common_element (map fst y) (default_key # accepted_keys) of
              None \<Rightarrow> PNone | Some k \<Rightarrow> Metadata_get y k PNone)) = None"
      "subscript0 (Metadata_get y ''pepmass'' PNone) = Inr t"
      "convert_precursor_mz float_str t \<noteq> PNone"
      "y' = AList.update ''precursor_mz'' t y"
  | (unresolved)
      "float_of_number float_int (convert_precursor_mz float_str
           (case get_first_common_element (map fst y) (default_key # accepted_keys) of
              None \<Rightarrow> PNone | Some k \<Rightarrow> Metadata_get y k PNone)) = None"
      "y' = y"
      "Metadata_get y ''pepmass'' PNone = PNone \<or>
         (\<exists>t. subscript0 (Metadata_get y ''pepmass'' PNone) = Inr t \<and>
              convert_precursor_mz float_str t = PNone)"
proof (cases "float_of_number float_int (convert_precursor_mz float_str
           (case get_first_common_element (map fst y) (default_key # accepted_keys) of
              None \<Rightarrow> PNone | Some k \<Rightarrow> Metadata_get y k PNone))")
  case None
  then have fb: "pepmass_fallback float_str y = Inr y'"
    using assms by (simp add: add_precursor_mz_metadata_def Let_def)
  show ?thesis
  proof (cases "Metadata_get y ''pepmass'' PNone = PNone")
    case True
    then have "y' = y" using fb by (simp add: pepmass_fallback_def)
    then show ?thesis using None True unresolved by blast
  next
    case False
    then obtain t where t: "subscript0 (Metadata_get y ''pepmass'' PNone) = Inr t"
      using fb by (auto simp: pepmass_fallback_def Let_def split: sum.splits)
    show ?thesis
    proof (cases "convert_precursor_mz float_str t = PNone")
      case True
      then have "y' = y" using fb False t by (simp add: pepmass_fallback_def Let_def)
      then show ?thesis using None t True unresolved by blast
    next
      case c: False
      then have "y' = AList.update ''precursor_mz'' t y"
        using fb False t by (simp add: pepmass_fallback_def Let_def)
      then show ?thesis using None t c fallback by blast
    qed
  qed
next
  case (Some a)
  then show ?thesis
    using assms direct
    by (cases a) (auto simp: add_precursor_mz_metadata_def Let_def)
qed

lemma add_precursor_mz_metadata_fallback:
  assumes "float_of_number float_int (convert_precursor_mz float_str
           (case get_first_common_element (map fst y) (default_key # accepted_keys) of
              None \<Rightarrow> PNone | Some k \<Rightarrow> Metadata_get y k PNone)) = None"
      "subscript0 (Metadata_get y ''pepmass'' PNone) = Inr t"
      "convert_precursor_mz float_str t \<noteq> PNone"
  shows "add_precursor_mz_metadata float_str float_int y = Inr (AList.update ''precursor_mz'' t y)"
proof -
  have "Metadata_get y ''pepmass'' PNone \<noteq> PNone"
    using assms(2) by auto
  then show ?thesis
    using assms by (simp add: add_precursor_mz_metadata_def pepmass_fallback_def Let_def)
qed

lemma ionmode_steps_other_key:
  assumes "lower_ionmode str_lower a = Inr b" "k \<noteq> ''ionmode''"
  shows "map_of (default_ionmode b) k = map_of a k"
  using assms
  by (auto simp: lower_ionmode_def default_ionmode_def update_conv' split: pyval.splits)

lemma ionmode_steps_string:
  assumes "lower_ionmode str_lower a = Inr b"
  shows "\<exists>t. map_of (default_ionmode b) ''ionmode'' = Some (PStr t)"
  using assms
  by (auto simp: lower_ionmode_def default_ionmode_def update_conv' Metadata_get_def
      split: pyval.splits option.splits)

text \<open>
  C2, as amended. Let a pass over a record return, where the key tables leave the keys of
  the result as they are and \<open>str.lower()\<close> leaves its lower-cased \<open>ionmode\<close> as it is. Then
  a second pass returns the identical record exactly when the first pass did not resolve
  \<open>precursor_mz\<close> through the \<open>pepmass\<close> fallback, or the token the fallback stored is a
  float and the store holds no alias key (\<open>precursormz\<close>, \<open>precursor_mass\<close>). The fallback
  is taken when the first present key yields no number and the first token of \<open>pepmass\<close>
  converts. Identical means the same keys in the same order with the same values of the
  same types: a stored int and the float of the same number are two values.
\<close>

theorem harmonize_metadata_idempotent:
  assumes run: "harmonize_metadata install_tables str_lower float_str float_int d = Inr r"
    and tables: "install_tables r = r"
    and lowered: "\<forall>t. map_of r ''ionmode'' = Some (PStr t) \<longrightarrow> str_lower t = t"
  shows "harmonize_metadata install_tables str_lower float_str float_int r = Inr r \<longleftrightarrow>
         (\<forall>t. float_of_number float_int (convert_precursor_mz float_str
                 (case get_first_common_element (map fst (install_tables d))
                         [''precursor_mz'', ''precursormz'', ''precursor_mass''] of
                    None \<Rightarrow> PNone
                  | Some k \<Rightarrow> Metadata_get (install_tables d) k PNone)) = None \<and>
              subscript0 (Metadata_get (install_tables d) ''pepmass'' PNone) = Inr t \<and>
              convert_precursor_mz float_str t \<noteq> PNone
              \<longrightarrow> (\<exists>f. t = PFloat f) \<and>
                  map_of (install_tables d) ''precursormz'' = None \<and>
                  map_of (install_tables d) ''precursor_mass'' = None)"
    (is "?twice \<longleftrightarrow> ?cond")
proof -
  let ?x = "install_tables d"
  from run obtain d1 d2 where
    1: "lower_ionmode str_lower ?x = Inr d1" and
    2: "add_precursor_mz_metadata float_str float_int (default_ionmode d1) = Inr d2" and
    3: "r = charge_to_int d2"
    by (rule harmonize_metadata_steps)
  let ?y = "default_ionmode d1"
  have y_of: "\<And>k. k \<noteq> ''ionmode'' \<Longrightarrow> map_of ?y k = map_of ?x k"
    using ionmode_steps_other_key[OF 1] by simp
  have r_of: "\<And>k. k \<noteq> ''charge'' \<Longrightarrow> map_of r k = map_of d2 k"
    unfolding 3 by (rule charge_to_int_other_key)
  have y_pep: "Metadata_get ?y ''pepmass'' PNone = Metadata_get ?x ''pepmass'' PNone"
    using y_of[of "''pepmass''"] by (simp add: Metadata_get_def)
  have y_val: "(case get_first_common_element (map fst ?y) (default_key # accepted_keys) of
              None \<Rightarrow> PNone | Some k \<Rightarrow> Metadata_get ?y k PNone)
         = (case get_first_common_element (map fst ?x)
                   [''precursor_mz'', ''precursormz'', ''precursor_mass''] of
              None \<Rightarrow> PNone | Some k \<Rightarrow> Metadata_get ?x k PNone)"
    using first_value_same[of ?y ?x] y_of by (simp add: default_key_def accepted_keys_def)
  obtain t0 where ion_r0: "map_of ?y ''ionmode'' = Some (PStr t0)"
    using ionmode_steps_string[OF 1] by blast
  have "map_of r ''ionmode'' = Some (PStr t0)"
    using ion_r0 add_precursor_mz_metadata_other_key[OF 2, of "''ionmode''"] r_of by simp
  then have ion: "lower_ionmode str_lower r = Inr r" "default_ionmode r = r"
    using lowered ionmode_fixed[of r t0 str_lower] by simp_all
  have ch: "charge_to_int r = r"
    unfolding 3 by (rule charge_to_int_idem)
  have second: "?twice \<longleftrightarrow> add_precursor_mz_metadata float_str float_int r = Inr r"
  proof
    assume ?twice
    then obtain e1 e2 where
      a: "lower_ionmode str_lower (install_tables r) = Inr e1" and
      b: "add_precursor_mz_metadata float_str float_int (default_ionmode e1) = Inr e2" and
      c: "r = charge_to_int e2"
      by (rule harmonize_metadata_steps)
    have e1: "default_ionmode e1 = r"
      using a ion by (simp add: tables)
    have keep: "\<And>k. k \<noteq> ''charge'' \<Longrightarrow> map_of e2 k = map_of r k"
      using c charge_to_int_other_key[of _ e2] by simp
    from b[unfolded e1] show "add_precursor_mz_metadata float_str float_int r = Inr r"
    proof (cases rule: add_precursor_mz_metadata_paths)
      case (direct f)
      then have "map_of e2 ''precursor_mz'' = Some (PFloat f)"
        "map_of e2 ''precursormz'' = None" "map_of e2 ''precursor_mass'' = None"
        by (simp_all add: accepted_keys_def delete_conv' update_conv')
      then show ?thesis
        using keep by (intro add_precursor_mz_metadata_float_fixed) simp_all
    next
      case (fallback t)
      then have "map_of e2 ''precursor_mz'' = Some t"
        by (simp add: update_conv')
      then have "map_of r ''precursor_mz'' = Some t"
        using keep by simp
      then have "AList.update ''precursor_mz'' t r = r"
        by (rule update_triv)
      then show ?thesis
        using fallback(4) b[unfolded e1] by simp
    next
      case unresolved
      then show ?thesis
        using b[unfolded e1] by simp
    qed
  next
    assume "add_precursor_mz_metadata float_str float_int r = Inr r"
    then show ?twice
      using harmonize_metadata_from_steps[of str_lower install_tables r r float_str float_int r]
        ion ch by (simp add: tables)
  qed
  show ?thesis
    using 2
  proof (cases rule: add_precursor_mz_metadata_paths)
    case (direct f)
    then have "map_of d2 ''precursor_mz'' = Some (PFloat f)"
      "map_of d2 ''precursormz'' = None" "map_of d2 ''precursor_mass'' = None"
      by (simp_all add: accepted_keys_def delete_conv' update_conv')
    then have "add_precursor_mz_metadata float_str float_int r = Inr r"
      using r_of by (intro add_precursor_mz_metadata_float_fixed) simp_all
    then have tw: ?twice using second by simp
    have cn: ?cond
      using direct(1) unfolding y_val by simp
    show ?thesis by (rule iffI[OF cn tw])
  next
    case unresolved
    note n = unresolved(1) and same = unresolved(2) and p = unresolved(3)
    have vals: "\<forall>k \<in> {''precursor_mz'', ''precursormz'', ''precursor_mass'', ''pepmass''}.
           map_of r k = map_of ?y k"
      using r_of same by simp
    have "add_precursor_mz_metadata float_str float_int r = Inr r"
      by (rule add_precursor_mz_metadata_same_inputs[OF vals n p])
    then have tw: ?twice using second by simp
    have cn: ?cond
      using p unfolding y_pep by auto
    show ?thesis by (rule iffI[OF cn tw])
  next
    case (fallback t)
    have tok: "subscript0 (Metadata_get ?x ''pepmass'' PNone) = Inr t"
      using fallback(2) unfolding y_pep .
    have none: "float_of_number float_int (convert_precursor_mz float_str
                 (case get_first_common_element (map fst ?x)
                         [''precursor_mz'', ''precursormz'', ''precursor_mass''] of
                    None \<Rightarrow> PNone
                  | Some k \<Rightarrow> Metadata_get ?x k PNone)) = None"
      using fallback(1) unfolding y_val .
    have c: "?cond \<longleftrightarrow> (\<exists>f. t = PFloat f) \<and> map_of ?x ''precursormz'' = None \<and>
                  map_of ?x ''precursor_mass'' = None"
      using tok none fallback(3) by auto
    have rt: "map_of r ''precursor_mz'' = Some t"
      using r_of[of "''precursor_mz''"] fallback(4) by (simp add: update_conv')
    have ra: "map_of r ''precursormz'' = map_of ?x ''precursormz''"
      "map_of r ''precursor_mass'' = map_of ?x ''precursor_mass''"
      using r_of fallback(4) y_of by (simp_all add: update_conv')
    have "add_precursor_mz_metadata float_str float_int r = Inr r \<longleftrightarrow>
          (\<exists>f. t = PFloat f) \<and> map_of ?x ''precursormz'' = None \<and>
                  map_of ?x ''precursor_mass'' = None"
    proof
      assume "add_precursor_mz_metadata float_str float_int r = Inr r"
      from add_precursor_mz_metadata_stored[OF rt fallback(3) this]
      show "(\<exists>f. t = PFloat f) \<and> map_of ?x ''precursormz'' = None \<and>
                  map_of ?x ''precursor_mass'' = None"
        using rt ra by auto
    next
      assume a: "(\<exists>f. t = PFloat f) \<and> map_of ?x ''precursormz'' = None \<and>
                  map_of ?x ''precursor_mass'' = None"
      then obtain f where "t = PFloat f" by blast
      then show "add_precursor_mz_metadata float_str float_int r = Inr r"
        using a rt ra by (intro add_precursor_mz_metadata_float_fixed) simp_all
    qed
    then show ?thesis
      unfolding c second .
  qed
qed

theorem harmonize_metadata_idempotent_witness:
  "harmonize_metadata keep_keys ascii_lower float_str_ex float_int_ex
     [(''pepmass'', PTuple [PFloat (Finite (241 / 2)), PInt 10]), (''ionmode'', PStr ''Positive''),
      (''charge'', PStr ''2+'')]
   = Inr [(''pepmass'', PTuple [PFloat (Finite (241 / 2)), PInt 10]), (''ionmode'', PStr ''positive''),
          (''charge'', PInt 2), (''precursor_mz'', PFloat (Finite (241 / 2)))] \<and>
   harmonize_metadata keep_keys ascii_lower float_str_ex float_int_ex
     [(''pepmass'', PTuple [PFloat (Finite (241 / 2)), PInt 10]), (''ionmode'', PStr ''positive''),
      (''charge'', PInt 2), (''precursor_mz'', PFloat (Finite (241 / 2)))]
   = Inr [(''pepmass'', PTuple [PFloat (Finite (241 / 2)), PInt 10]), (''ionmode'', PStr ''positive''),
          (''charge'', PInt 2), (''precursor_mz'', PFloat (Finite (241 / 2)))] \<and>
   harmonize_metadata keep_keys ascii_lower float_str_ex float_int_ex
     [(''precursormz'', PStr ''100.5''), (''pepmass'', PTuple [PStr ''120.5'', PInt 10])]
   = Inr [(''pepmass'', PTuple [PStr ''120.5'', PInt 10]), (''ionmode'', PStr ''n/a''),
          (''precursor_mz'', PFloat (Finite (201 / 2)))] \<and>
   harmonize_metadata keep_keys ascii_lower float_str_ex float_int_ex
     [(''pepmass'', PTuple [PStr ''120.5'', PInt 10]), (''ionmode'', PStr ''n/a''),
      (''precursor_mz'', PFloat (Finite (201 / 2)))]
   = Inr [(''pepmass'', PTuple [PStr ''120.5'', PInt 10]), (''ionmode'', PStr ''n/a''),
          (''precursor_mz'', PFloat (Finite (201 / 2)))]"
proof -
  let ?d = "[(''pepmass'', PTuple [PFloat (Finite (241 / 2)), PInt 10]),
             (''ionmode'', PStr ''Positive''), (''charge'', PStr ''2+'')]"
  let ?r = "[(''pepmass'', PTuple [PFloat (Finite (241 / 2)), PInt 10]),
             (''ionmode'', PStr ''positive''), (''charge'', PInt 2),
             (''precursor_mz'', PFloat (Finite (241 / 2)))]"
  let ?e = "[(''precursormz'', PStr ''100.5''), (''pepmass'', PTuple [PStr ''120.5'', PInt 10])]"
  let ?s = "[(''pepmass'', PTuple [PStr ''120.5'', PInt 10]), (''ionmode'', PStr ''n/a''),
             (''precursor_mz'', PFloat (Finite (201 / 2)))]"
  let ?keys = "[''precursor_mz'', ''precursormz'', ''precursor_mass'']"
  have run: "harmonize_metadata keep_keys ascii_lower float_str_ex float_int_ex ?d = Inr ?r"
    by code_simp
  have tables: "keep_keys ?r = ?r"
    by (simp add: keep_keys_def)
  have lp: "ascii_lower ''positive'' = ''positive''"
    by code_simp
  have lowered: "\<forall>t. map_of ?r ''ionmode'' = Some (PStr t) \<longrightarrow> ascii_lower t = t"
    using lp by simp
  have cond: "\<forall>t. float_of_number float_int_ex (convert_precursor_mz float_str_ex
                 (case get_first_common_element (map fst (keep_keys ?d)) ?keys of
                    None \<Rightarrow> PNone
                  | Some k \<Rightarrow> Metadata_get (keep_keys ?d) k PNone)) = None \<and>
              subscript0 (Metadata_get (keep_keys ?d) ''pepmass'' PNone) = Inr t \<and>
              convert_precursor_mz float_str_ex t \<noteq> PNone
              \<longrightarrow> (\<exists>f. t = PFloat f) \<and>
                  map_of (keep_keys ?d) ''precursormz'' = None \<and>
                  map_of (keep_keys ?d) ''precursor_mass'' = None"
    by (simp add: keep_keys_def Metadata_get_def)
  have twice: "harmonize_metadata keep_keys ascii_lower float_str_ex float_int_ex ?r = Inr ?r"
    using harmonize_metadata_idempotent[OF run tables lowered] cond by blast
  have run': "harmonize_metadata keep_keys ascii_lower float_str_ex float_int_ex ?e = Inr ?s"
    by code_simp
  have tables': "keep_keys ?s = ?s"
    by (simp add: keep_keys_def)
  have ln: "ascii_lower ''n/a'' = ''n/a''"
    by code_simp
  have lowered': "\<forall>t. map_of ?s ''ionmode'' = Some (PStr t) \<longrightarrow> ascii_lower t = t"
    using ln by simp
  have direct: "float_of_number float_int_ex (convert_precursor_mz float_str_ex
                 (case get_first_common_element (map fst (keep_keys ?e)) ?keys of
                    None \<Rightarrow> PNone
                  | Some k \<Rightarrow> Metadata_get (keep_keys ?e) k PNone)) = Some (Inr (Finite (201 / 2)))"
    by code_simp
  have cond': "\<forall>t. float_of_number float_int_ex (convert_precursor_mz float_str_ex
                 (case get_first_common_element (map fst (keep_keys ?e)) ?keys of
                    None \<Rightarrow> PNone
                  | Some k \<Rightarrow> Metadata_get (keep_keys ?e) k PNone)) = None \<and>
              subscript0 (Metadata_get (keep_keys ?e) ''pepmass'' PNone) = Inr t \<and>
              convert_precursor_mz float_str_ex t \<noteq> PNone
              \<longrightarrow> (\<exists>f. t = PFloat f) \<and>
                  map_of (keep_keys ?e) ''precursormz'' = None \<and>
                  map_of (keep_keys ?e) ''precursor_mass'' = None"
    unfolding direct by simp
  have twice': "harmonize_metadata keep_keys ascii_lower float_str_ex float_int_ex ?s = Inr ?s"
    using harmonize_metadata_idempotent[OF run' tables' lowered'] cond' by blast
  show ?thesis
    using run twice run' twice' by simp
qed

text \<open>
  C2, counterexample. With the mass token of \<open>pepmass\<close> a string and no precursor key, the
  first pass stores the string \<open>120.5\<close> under \<open>precursor_mz\<close> as it is, and the second
  pass finds that key and replaces the string by the float.
\<close>

theorem harmonize_metadata_twice_counterexample:
  "harmonize_metadata keep_keys ascii_lower float_str_ex float_int_ex
     [(''pepmass'', PTuple [PStr ''120.5'', PInt 10])]
   = Inr [(''pepmass'', PTuple [PStr ''120.5'', PInt 10]), (''ionmode'', PStr ''n/a''),
          (''precursor_mz'', PStr ''120.5'')] \<and>
   harmonize_metadata keep_keys ascii_lower float_str_ex float_int_ex
     [(''pepmass'', PTuple [PStr ''120.5'', PInt 10]), (''ionmode'', PStr ''n/a''),
      (''precursor_mz'', PStr ''120.5'')]
   = Inr [(''pepmass'', PTuple [PStr ''120.5'', PInt 10]), (''ionmode'', PStr ''n/a''),
          (''precursor_mz'', PFloat (Finite (241 / 2)))]"
  by code_simp

section \<open>Properties of the equality of records\<close>

lemma keys_differ_iff: "keys_differ ks ks' \<longleftrightarrow> set ks \<noteq> set ks'"
  by (auto simp: keys_differ_def list_all_iff)

lemma field_differs_same_shape:
  "same_shape v w \<Longrightarrow> field_differs py_ne numpy_other v w = Inr (\<not> values_equal py_ne v w)"
  by (cases v; cases w) (simp_all add: np_all_eq_def list_all2_conv_all_nth)

lemma eq_items_same_shape:
  assumes "\<forall>(k, v) \<in> set items. same_shape v (Metadata_get other k (Py PNone))"
  shows "eq_items py_ne numpy_other items other =
         Inr (\<forall>(k, v) \<in> set items. values_equal py_ne v (Metadata_get other k (Py PNone)))"
  using assms
proof (induction items)
  case Nil
  then show ?case by simp
next
  case (Cons kv items)
  obtain k v where kv: "kv = (k, v)" by (cases kv)
  have s: "same_shape v (Metadata_get other k (Py PNone))"
    using Cons.prems kv by simp
  have r: "\<forall>(k, v) \<in> set items. same_shape v (Metadata_get other k (Py PNone))"
    using Cons.prems by simp
  show ?case
    using Cons.IH[OF r] field_differs_same_shape[OF s, of py_ne numpy_other]
    by (cases "values_equal py_ne v (Metadata_get other k (Py PNone))") (simp_all add: kv)
qed

lemma items_by_key:
  assumes "distinct (map fst self)"
  shows "(\<forall>(k, v) \<in> set self. P k v) \<longleftrightarrow>
         (\<forall>k \<in> set (map fst self). P k (Metadata_get self k dflt))"
proof -
  have a: "\<And>k v. (k, v) \<in> set self \<Longrightarrow> Metadata_get self k dflt = v"
    using assms by (simp add: Metadata_get_def)
  have b: "\<And>k. k \<in> set (map fst self) \<Longrightarrow> (k, Metadata_get self k dflt) \<in> set self"
  proof -
    fix k assume "k \<in> set (map fst self)"
    then obtain v where v: "(k, v) \<in> set self" by auto
    then show "(k, Metadata_get self k dflt) \<in> set self" using a by simp
  qed
  show ?thesis
  proof
    assume l: "\<forall>(k, v) \<in> set self. P k v"
    show "\<forall>k \<in> set (map fst self). P k (Metadata_get self k dflt)"
    proof
      fix k assume "k \<in> set (map fst self)"
      from b[OF this] l show "P k (Metadata_get self k dflt)" by blast
    qed
  next
    assume r: "\<forall>k \<in> set (map fst self). P k (Metadata_get self k dflt)"
    show "\<forall>(k, v) \<in> set self. P k v"
    proof (clarify)
      fix k v assume kv: "(k, v) \<in> set self"
      then have "k \<in> set (map fst self)" by force
      with r have "P k (Metadata_get self k dflt)" by blast
      then show "P k v" using a[OF kv] by simp
    qed
  qed
qed

text \<open>
  C4, as amended. For two records in which every field of the left record has a field of
  the same kind under its key on the right (both plain, or both arrays of one length),
  \<open>__eq__\<close> returns, and returns True exactly when the key sets are identical and the two
  values of every key are equal, arrays element by element. Two such records with an
  array field that differs in one element are unequal.
\<close>

theorem Metadata_eq_same_shape:
  assumes d: "distinct (map fst self)"
    and s: "\<forall>k \<in> set (map fst self).
              same_shape (Metadata_get self k (Py PNone)) (Metadata_get other k (Py PNone))"
  shows "Metadata_eq py_ne numpy_other self other =
           Inr (set (map fst self) = set (map fst other) \<and>
                (\<forall>k \<in> set (map fst self).
                   values_equal py_ne (Metadata_get self k (Py PNone))
                                      (Metadata_get other k (Py PNone)))) \<and>
         (\<forall>k xs ys i. Metadata_get self k (Py PNone) = NdArray xs \<and>
                      Metadata_get other k (Py PNone) = NdArray ys \<and>
                      k \<in> set (map fst self) \<and> i < length xs \<and> xs ! i \<noteq> ys ! i \<longrightarrow>
            Metadata_eq py_ne numpy_other self other = Inr False)"
proof -
  have s': "\<forall>(k, v) \<in> set self. same_shape v (Metadata_get other k (Py PNone))"
    using s items_by_key[OF d, of "\<lambda>k v. same_shape v (Metadata_get other k (Py PNone))" "Py PNone"]
    by simp
  have it: "eq_items py_ne numpy_other self other =
         Inr (\<forall>k \<in> set (map fst self).
                   values_equal py_ne (Metadata_get self k (Py PNone))
                                      (Metadata_get other k (Py PNone)))"
    using eq_items_same_shape[OF s', of py_ne numpy_other]
      items_by_key[OF d, of "\<lambda>k v. values_equal py_ne v (Metadata_get other k (Py PNone))" "Py PNone"]
    by simp
  have main: "Metadata_eq py_ne numpy_other self other =
           Inr (set (map fst self) = set (map fst other) \<and>
                (\<forall>k \<in> set (map fst self).
                   values_equal py_ne (Metadata_get self k (Py PNone))
                                      (Metadata_get other k (Py PNone))))"
  proof (cases "set (map fst self) = set (map fst other)")
    case True
    then have "\<not> keys_differ (map fst self) (map fst other)"
      by (simp add: keys_differ_iff)
    then have "Metadata_eq py_ne numpy_other self other = eq_items py_ne numpy_other self other"
      by (simp only: Metadata_eq_def if_False)
    then show ?thesis
      using True by (simp only: it simp_thms)
  next
    case False
    then have "keys_differ (map fst self) (map fst other)"
      by (simp add: keys_differ_iff)
    then have "Metadata_eq py_ne numpy_other self other = Inr False"
      by (simp only: Metadata_eq_def if_True)
    then show ?thesis
      using False by simp
  qed
  have el: "\<And>k xs ys i. Metadata_get self k (Py PNone) = NdArray xs \<Longrightarrow>
                      Metadata_get other k (Py PNone) = NdArray ys \<Longrightarrow>
                      k \<in> set (map fst self) \<Longrightarrow> i < length xs \<Longrightarrow> xs ! i \<noteq> ys ! i \<Longrightarrow>
            Metadata_eq py_ne numpy_other self other = Inr False"
  proof -
    fix k xs ys i
    assume a: "Metadata_get self k (Py PNone) = NdArray xs"
      "Metadata_get other k (Py PNone) = NdArray ys"
      "k \<in> set (map fst self)" "i < length xs" "xs ! i \<noteq> ys ! i"
    have "\<not> float_eq (xs ! i) (ys ! i)"
      using a(5) by (simp add: float_eq_def)
    then have "\<not> values_equal py_ne (NdArray xs) (NdArray ys)"
      using a(4) by auto
    then have "\<not> (\<forall>k \<in> set (map fst self).
                   values_equal py_ne (Metadata_get self k (Py PNone))
                                      (Metadata_get other k (Py PNone)))"
      using a(1,2,3) by metis
    then show "Metadata_eq py_ne numpy_other self other = Inr False"
      unfolding main by simp
  qed
  show ?thesis
    using main el by blast
qed

theorem Metadata_eq_same_shape_witness:
  "Metadata_eq py_ne_ex numpy_other_ex
     [(''a'', NdArray [Finite 1, Finite 2]), (''b'', Py (PStr ''x''))]
     [(''b'', Py (PStr ''x'')), (''a'', NdArray [Finite 1, Finite 2])] = Inr True \<and>
   Metadata_eq py_ne_ex numpy_other_ex
     [(''a'', NdArray [Finite 1, Finite 2]), (''b'', Py (PStr ''x''))]
     [(''b'', Py (PStr ''x'')), (''a'', NdArray [Finite 1, Finite 3])] = Inr False"
proof -
  let ?self = "[(''a'', NdArray [Finite 1, Finite 2]), (''b'', Py (PStr ''x''))]"
  let ?o1 = "[(''b'', Py (PStr ''x'')), (''a'', NdArray [Finite 1, Finite 2])]"
  let ?o2 = "[(''b'', Py (PStr ''x'')), (''a'', NdArray [Finite 1, Finite 3])]"
  have d: "distinct (map fst ?self)"
    by simp
  have s1: "\<forall>k \<in> set (map fst ?self).
              same_shape (Metadata_get ?self k (Py PNone)) (Metadata_get ?o1 k (Py PNone))"
    by (simp add: Metadata_get_def)
  have s2: "\<forall>k \<in> set (map fst ?self).
              same_shape (Metadata_get ?self k (Py PNone)) (Metadata_get ?o2 k (Py PNone))"
    by (simp add: Metadata_get_def)
  have k: "set (map fst ?self) = set (map fst ?o1)" "set (map fst ?self) = set (map fst ?o2)"
    by auto
  have v1: "\<forall>k \<in> set (map fst ?self).
              values_equal py_ne_ex (Metadata_get ?self k (Py PNone)) (Metadata_get ?o1 k (Py PNone))"
    by (simp add: Metadata_get_def py_ne_ex_def float_eq_def less_Suc_eq)
  have a: "Metadata_get ?self ''a'' (Py PNone) = NdArray [Finite 1, Finite 2] \<and>
           Metadata_get ?o2 ''a'' (Py PNone) = NdArray [Finite 1, Finite 3] \<and>
           ''a'' \<in> set (map fst ?self) \<and> (1::nat) < length [Finite 1, Finite 2] \<and>
           [Finite 1, Finite 2] ! 1 \<noteq> [Finite 1, Finite 3] ! 1"
    by (simp add: Metadata_get_def)
  have r1: "Metadata_eq py_ne_ex numpy_other_ex ?self ?o1 = Inr True"
    using Metadata_eq_same_shape[OF d s1, of py_ne_ex numpy_other_ex] k(1) v1 by simp
  have r2: "Metadata_eq py_ne_ex numpy_other_ex ?self ?o2 = Inr False"
    using Metadata_eq_same_shape[OF d s2, of py_ne_ex numpy_other_ex] a by blast
  show ?thesis
    using r1 r2 by simp
qed

text \<open>
  C4, counterexample. An array of two ones and the scalar float one under the same key:
  the values are not equal, yet numpy broadcasts the scalar and \<open>__eq__\<close> returns True.
  With the two records exchanged the plain value is on the left, the comparison yields an
  array of two truth values and \<open>__eq__\<close> raises ValueError.
\<close>

theorem Metadata_eq_broadcast_counterexample:
  "Metadata_eq py_ne_ex numpy_other_ex
     [(''a'', NdArray [Finite 1, Finite 1])] [(''a'', Py (PFloat (Finite 1)))] = Inr True \<and>
   \<not> values_equal py_ne_ex (NdArray [Finite 1, Finite 1]) (Py (PFloat (Finite 1))) \<and>
   Metadata_eq py_ne_ex numpy_other_ex
     [(''a'', Py (PFloat (Finite 1)))] [(''a'', NdArray [Finite 1, Finite 1])] = Inl ValueError"
  by code_simp

end
